theory Spec2Isabelle
  imports
    Main
    "HOL-Library.AList"
    "HOL-Library.Char_ord"
    "HOL-Library.List_Lexorder"
    "HOL-Library.Option_ord"
    "HOL-Library.Product_Lexorder"
    "HOL-Library.Multiset"
begin

section \<open>JavaScript values, strings and arrays\<close>

text \<open>
  The services of CSVista (\<^verbatim>\<open>dataService\<close> in its two variants, the cache-backed one
  that reads every row into memory and the index-backed one that queries IndexedDB through
  Dexie) and the chart aggregation of the project page work on plain JavaScript objects
  whose cells are strings. An object is modelled by the list of its own properties in
  the order in which \<^verbatim>\<open>Object.entries\<close> and \<^verbatim>\<open>Object.keys\<close> enumerate them, a string
  by the list of its code units. Strings of the model are ASCII: white space is the ASCII
  white space and line terminators, and case mapping acts on the letters A to Z. A
  property is read among the own properties of the object; arrays are left out of the
  values.
\<close>

datatype jsval =
    JUndefined
  | JNull
  | JBool bool
  | JNum int
  | JStr string
  | JObj "(string \<times> jsval) list"

type_synonym jsobj = "(string \<times> jsval) list"

text \<open>\<^verbatim>\<open>Record<string, string>\<close>: the entries of a row, in key order.\<close>

type_synonym row = "(string \<times> string) list"

definition isWhiteSpace :: "char \<Rightarrow> bool" where
  "isWhiteSpace c = (c \<in> set [CHR '' '', CHR 0x09, CHR 0x0A, CHR 0x0B, CHR 0x0C, CHR 0x0D])"

text \<open>\<^verbatim>\<open>String.prototype.trim\<close>.\<close>

definition trim :: "string \<Rightarrow> string" where
  "trim s = rev (dropWhile isWhiteSpace (rev (dropWhile isWhiteSpace s)))"

definition lowerChar :: "char \<Rightarrow> char" where
  "lowerChar c =
     (case map_of (zip ''ABCDEFGHIJKLMNOPQRSTUVWXYZ'' ''abcdefghijklmnopqrstuvwxyz'') c of
        None \<Rightarrow> c
      | Some d \<Rightarrow> d)"

text \<open>\<^verbatim>\<open>toLowerCase\<close> and \<^verbatim>\<open>toLocaleLowerCase\<close> (the same function on ASCII).\<close>

definition toLowerCase :: "string \<Rightarrow> string" where
  "toLowerCase s = map lowerChar s"

definition toLocaleLowerCase :: "string \<Rightarrow> string" where
  "toLocaleLowerCase s = toLowerCase s"

text \<open>\<^verbatim>\<open>s.indexOf(t) === 0\<close>: \<open>t\<close> is a prefix of \<open>s\<close>.\<close>

fun startsWith :: "string \<Rightarrow> string \<Rightarrow> bool" where
  "startsWith s [] = True"
| "startsWith [] (d # ds) = False"
| "startsWith (c # cs) (d # ds) = (c = d \<and> startsWith cs ds)"

text \<open>\<^verbatim>\<open>s.includes(t)\<close>: \<open>t\<close> occurs in \<open>s\<close> at some position.\<close>

fun includes_str :: "string \<Rightarrow> string \<Rightarrow> bool" where
  "includes_str [] t = (t = [])"
| "includes_str (c # cs) t = (startsWith (c # cs) t \<or> includes_str cs t)"

text \<open>\<^verbatim>\<open>s.replaceAll("'", "''")\<close>.\<close>

definition escapeQuotes :: "string \<Rightarrow> string" where
  "escapeQuotes s = concat (map (\<lambda>c. if c = CHR 0x27 then [c, c] else [c]) s)"

text \<open>The decimal text of a number, as a template literal prints it.\<close>

definition digitChar :: "nat \<Rightarrow> char" where
  "digitChar d = ''0123456789'' ! d"

fun showNat :: "nat \<Rightarrow> string" where
  "showNat n = (if n < 10 then [digitChar n] else showNat (n div 10) @ [digitChar (n mod 10)])"

definition showInt :: "int \<Rightarrow> string" where
  "showInt i = (if i < 0 then CHR ''-'' # showNat (nat (- i)) else showNat (nat i))"

text \<open>\<^verbatim>\<open>String(value)\<close>.\<close>

fun String :: "jsval \<Rightarrow> string" where
  "String JUndefined = ''undefined''"
| "String JNull = ''null''"
| "String (JBool b) = (if b then ''true'' else ''false'')"
| "String (JNum i) = showInt i"
| "String (JStr s) = s"
| "String (JObj es) = ''[object Object]''"

text \<open>\<^verbatim>\<open>value == null ? '' : String(value)\<close>.\<close>

definition stringOrEmpty :: "jsval \<Rightarrow> string" where
  "stringOrEmpty v = (if v = JNull \<or> v = JUndefined then [] else String v)"

text \<open>\<^verbatim>\<open>row[field] ?? ''\<close> on a row of strings.\<close>

definition cell :: "row \<Rightarrow> string \<Rightarrow> string" where
  "cell r field = (case map_of r field of None \<Rightarrow> [] | Some v \<Rightarrow> v)"

text \<open>
  The truthiness of an optional string parameter: \<^verbatim>\<open>undefined\<close> and the empty string
  are falsy.
\<close>

fun truthy :: "string option \<Rightarrow> bool" where
  "truthy None = False"
| "truthy (Some s) = (s \<noteq> [])"

text \<open>\<^verbatim>\<open>param ?? ''\<close>.\<close>

fun orEmpty :: "string option \<Rightarrow> string" where
  "orEmpty None = []"
| "orEmpty (Some s) = s"

text \<open>
  \<^verbatim>\<open>Array.prototype.sort(compareFn)\<close>: a stable sort. With a consistent comparator its
  result is determined; it is computed here by insertion from the right, which places an
  element before the first later element that does not compare below it.
\<close>

fun insertSorted :: "('a \<Rightarrow> 'a \<Rightarrow> int) \<Rightarrow> 'a \<Rightarrow> 'a list \<Rightarrow> 'a list" where
  "insertSorted cmp x [] = [x]"
| "insertSorted cmp x (y # ys) =
     (if cmp x y \<le> 0 then x # y # ys else y # insertSorted cmp x ys)"

definition arraySort :: "('a \<Rightarrow> 'a \<Rightarrow> int) \<Rightarrow> 'a list \<Rightarrow> 'a list" where
  "arraySort cmp xs = foldr (insertSorted cmp) xs []"

text \<open>\<^verbatim>\<open>xs.slice(start, end)\<close> for \<open>0 \<le> start \<le> end\<close>.\<close>

definition slice :: "'a list \<Rightarrow> nat \<Rightarrow> nat \<Rightarrow> 'a list" where
  "slice xs start end' = take (end' - start) (drop start xs)"

subsection \<open>Collation\<close>

text \<open>
  \<^verbatim>\<open>a.localeCompare(b, undefined, options)\<close> compares by the collation of the runtime.
  A collation orders strings by their sort keys, so the collator is a parameter of the
  model: a function \<open>ck\<close> from the options and a string to a key of a linear order. The
  sign of the comparison is the order of the keys.
\<close>

datatype Sensitivity = Base | Accent | Case | Variant

record CollatorOptions =
  numeric :: bool
  sensitivity :: Sensitivity

definition localeCompare ::
  "(CollatorOptions \<Rightarrow> string \<Rightarrow> 'k::linorder) \<Rightarrow> string \<Rightarrow> string \<Rightarrow> CollatorOptions \<Rightarrow> int"
where
  "localeCompare ck a b opts =
     (if ck opts a < ck opts b then - 1 else if ck opts a = ck opts b then 0 else 1)"

text \<open>
  A collation of ASCII letters and digits, for evaluating examples: the key of a string
  is the list of its tokens, a digit run (its value, when the collation is numeric)
  before any other character; with sensitivity \<^verbatim>\<open>base\<close> letters are compared without
  their case.
\<close>

definition isDigit :: "char \<Rightarrow> bool" where
  "isDigit c = (CHR ''0'' \<le> c \<and> c \<le> CHR ''9'')"

definition digitValue :: "char \<Rightarrow> nat" where
  "digitValue c = of_char c - of_char CHR ''0''"

fun asciiTokens :: "bool \<Rightarrow> bool \<Rightarrow> nat option \<Rightarrow> string \<Rightarrow> (nat \<times> nat) list" where
  "asciiTokens num nocase None [] = []"
| "asciiTokens num nocase (Some n) [] = [(0, n)]"
| "asciiTokens num nocase None (c # cs) =
     (if num \<and> isDigit c then asciiTokens num nocase (Some (digitValue c)) cs
      else (1, of_char (if nocase then lowerChar c else c)) # asciiTokens num nocase None cs)"
| "asciiTokens num nocase (Some n) (c # cs) =
     (if isDigit c then asciiTokens num nocase (Some (10 * n + digitValue c)) cs
      else (0, n) # (1, of_char (if nocase then lowerChar c else c)) # asciiTokens num nocase None cs)"

definition asciiCollationKey :: "CollatorOptions \<Rightarrow> string \<Rightarrow> (nat \<times> nat) list" where
  "asciiCollationKey opts s = asciiTokens (numeric opts) (sensitivity opts = Base) None s"

subsection \<open>The properties of an object\<close>

text \<open>
  JavaScript enumerates the own properties of an object in a fixed order: first the
  names that are array indices (the decimal text, without a leading zero, of a number
  below 4294967295) by rising number, then every other name in the order in which
  the properties were created. So the header \<^verbatim>\<open>2021\<close> of a file comes before the header
  \<^verbatim>\<open>name\<close> in every row, wherever it stands in the file.
\<close>

definition indexValue :: "string \<Rightarrow> int" where
  "indexValue k = foldl (\<lambda>n c. 10 * n + int (digitValue c)) 0 k"

definition isArrayIndex :: "string \<Rightarrow> bool" where
  "isArrayIndex k =
     (k \<noteq> [] \<and> list_all isDigit k \<and> (k = ''0'' \<or> hd k \<noteq> CHR ''0'') \<and> indexValue k \<le> 4294967294)"

definition propertyRank :: "string \<times> 'v \<Rightarrow> nat \<times> int" where
  "propertyRank e = (if isArrayIndex (fst e) then (0, indexValue (fst e)) else (1, 0))"

definition ownPropertyOrder :: "(string \<times> 'v) list \<Rightarrow> (string \<times> 'v) list" where
  "ownPropertyOrder es = sort_key propertyRank es"

text \<open>
  \<^verbatim>\<open>obj[key] = value\<close> on a plain object whose property values are data: a property
  that exists keeps its place and takes the value, a new one is created last and
  enumerated at its place in the order above. The name \<^verbatim>\<open>__proto__\<close> is the accessor of
  the prototype and not a property of the object: assigning to it creates nothing.
\<close>

definition objSet :: "string \<Rightarrow> 'v \<Rightarrow> (string \<times> 'v) list \<Rightarrow> (string \<times> 'v) list" where
  "objSet k v obj =
     (if k = ''__proto__'' then obj
      else if k \<in> set (map fst obj) then AList.update k v obj
      else ownPropertyOrder (obj @ [(k, v)]))"

section \<open>Chart aggregation\<close>

text \<open>
  \<^verbatim>\<open>buildFieldCountChartData\<close> of the project page. The \<^verbatim>\<open>Map\<close> of counts keeps its
  keys in the order of their first insertion; a bucket \<^verbatim>\<open>{value, count}\<close> is a pair.
\<close>

definition bucketLabel :: "string \<Rightarrow> row \<Rightarrow> string" where
  "bucketLabel field r =
     (let rawValue = trim (cell r field) in if rawValue \<noteq> [] then rawValue else ''(Empty)'')"

definition countGet :: "(string \<times> nat) list \<Rightarrow> string \<Rightarrow> nat" where
  "countGet counts v = (case map_of counts v of None \<Rightarrow> 0 | Some n \<Rightarrow> n)"

definition countRow :: "string \<Rightarrow> (string \<times> nat) list \<Rightarrow> row \<Rightarrow> (string \<times> nat) list" where
  "countRow field counts r =
     (let v = bucketLabel field r in AList.update v (countGet counts v + 1) counts)"

definition compareBuckets ::
  "(CollatorOptions \<Rightarrow> string \<Rightarrow> 'k::linorder) \<Rightarrow> string \<times> nat \<Rightarrow> string \<times> nat \<Rightarrow> int"
where
  "compareBuckets ck left right =
     (if snd right \<noteq> snd left then int (snd right) - int (snd left)
      else localeCompare ck (fst left) (fst right) \<lparr>numeric = False, sensitivity = Base\<rparr>)"

definition buildFieldCountChartData ::
  "(CollatorOptions \<Rightarrow> string \<Rightarrow> 'k::linorder) \<Rightarrow> row list \<Rightarrow> string \<Rightarrow> (string \<times> nat) list"
where
  "buildFieldCountChartData ck rs field =
     arraySort (compareBuckets ck) (foldl (countRow field) [] rs)"

section \<open>The query request, its result and the displayed query\<close>

text \<open>
  The parameters of a query. An optional parameter that is left out is \<open>None\<close>; the page
  and the page size, numbers in the source, are integers here.
\<close>

datatype SortDirection = asc | desc

record QueryProjectRowsParams =
  page :: int
  pageSize :: int
  sortField :: "string option"
  sortDirection :: "SortDirection option"
  filterField :: "string option"
  filterValue :: "string option"

text \<open>The result; its \<^verbatim>\<open>fields\<close> are the component \<open>fieldList\<close>.\<close>

record QueryProjectRowsResult =
  rows :: "row list"
  fieldList :: "string list"
  total :: nat
  sql :: string

definition dquote :: string where
  "dquote = [CHR 0x22]"

definition squote :: string where
  "squote = [CHR 0x27]"

text \<open>\<^verbatim>\<open>parts.join(' ')\<close>.\<close>

fun joinSpace :: "string list \<Rightarrow> string" where
  "joinSpace [] = []"
| "joinSpace [p] = p"
| "joinSpace (p # q # ps) = p @ '' '' @ joinSpace (q # ps)"

text \<open>
  \<^verbatim>\<open>buildSqlLikeQuery\<close>. The two services differ in the pattern of the \<^verbatim>\<open>LIKE\<close> clause
  only, which is the argument \<open>pattern\<close> here: \<^verbatim>\<open>'%${escapedValue}%'\<close> in the cache-backed
  service, \<^verbatim>\<open>'${escapedValue}%'\<close> in the index-backed one.
\<close>

definition buildSqlLikeQueryWith ::
  "(string \<Rightarrow> string) \<Rightarrow> string \<Rightarrow> QueryProjectRowsParams \<Rightarrow> string"
where
  "buildSqlLikeQueryWith pattern projectId params =
     (let parts0 = [''SELECT * FROM '' @ dquote @ projectId @ dquote];
          parts1 =
            (if truthy (filterField params) \<and> truthy (filterValue params)
             then parts0 @
               [''WHERE '' @ dquote @ orEmpty (filterField params) @ dquote @ '' LIKE '' @
                  squote @ pattern (escapeQuotes (orEmpty (filterValue params))) @ squote]
             else parts0);
          parts2 =
            (if truthy (sortField params)
             then parts1 @
               [''ORDER BY '' @ dquote @ orEmpty (sortField params) @ dquote @ '' '' @
                  (if sortDirection params = Some desc then ''DESC'' else ''ASC'')]
             else parts1);
          offset = (max (page params) 1 - 1) * max (pageSize params) 1
      in joinSpace
           (parts2 @
             [''LIMIT '' @ showInt (max (pageSize params) 1) @ '' OFFSET '' @ showInt offset]))"

definition containsPattern :: "string \<Rightarrow> string" where
  "containsPattern escapedValue = ''%'' @ escapedValue @ ''%''"

definition startsWithPattern :: "string \<Rightarrow> string" where
  "startsWithPattern escapedValue = escapedValue @ ''%''"

definition buildSqlLikeQuery_cache :: "string \<Rightarrow> QueryProjectRowsParams \<Rightarrow> string" where
  "buildSqlLikeQuery_cache = buildSqlLikeQueryWith containsPattern"

definition buildSqlLikeQuery_dexie :: "string \<Rightarrow> QueryProjectRowsParams \<Rightarrow> string" where
  "buildSqlLikeQuery_dexie = buildSqlLikeQueryWith startsWithPattern"

section \<open>The object stores of the browser database\<close>

text \<open>
  An object store holds its records in the order of their primary keys. The project
  stores have the key path \<^verbatim>\<open>id\<close> with a key generator, so a stored record is the imported
  row with its \<^verbatim>\<open>id\<close>. An index of a store is named by its key path; storage requests
  other than those written out below do not fail.
\<close>

record ObjectStore =
  indexNames :: "string list"
  records :: "jsobj list"
  keyGenerator :: nat

record Database =
  version :: nat
  objectStores :: "string \<Rightarrow> ObjectStore option"

definition PROJECTS_STORE_NAME :: string where
  "PROJECTS_STORE_NAME = ''projects''"

definition emptyStore :: "string list \<Rightarrow> ObjectStore" where
  "emptyStore indexes = \<lparr>indexNames = indexes, records = [], keyGenerator = 1\<rparr>"

text \<open>
  The keys of the engine: numbers sort before strings, numbers by value, strings by
  their code units. Any other value is not a key.
\<close>

type_synonym idbKey = "nat \<times> int \<times> string"

fun toKey :: "jsval \<Rightarrow> idbKey option" where
  "toKey (JNum n) = Some (0, n, [])"
| "toKey (JStr s) = Some (1, 0, s)"
| "toKey v = None"

text \<open>
  A key path is the empty string or a sequence of identifiers separated by periods; an
  identifier of the model starts with an ASCII letter, a dollar sign or an underscore and
  goes on with these and digits. \<^verbatim>\<open>createIndex\<close> throws for any other string.
\<close>

definition isIdentifierStart :: "char \<Rightarrow> bool" where
  "isIdentifierStart c =
     ((CHR ''a'' \<le> c \<and> c \<le> CHR ''z'') \<or> (CHR ''A'' \<le> c \<and> c \<le> CHR ''Z'')
      \<or> c = CHR ''$'' \<or> c = CHR ''_'')"

definition isIdentifierPart :: "char \<Rightarrow> bool" where
  "isIdentifierPart c = (isIdentifierStart c \<or> isDigit c)"

definition isIdentifier :: "string \<Rightarrow> bool" where
  "isIdentifier s =
     (case s of [] \<Rightarrow> False | c # cs \<Rightarrow> isIdentifierStart c \<and> list_all isIdentifierPart cs)"

text \<open>\<^verbatim>\<open>keyPath.split('.')\<close>.\<close>

fun splitDots :: "string \<Rightarrow> string list" where
  "splitDots [] = [[]]"
| "splitDots (c # cs) =
     (if c = CHR ''.'' then [] # splitDots cs
      else (case splitDots cs of [] \<Rightarrow> [[c]] | part # parts \<Rightarrow> (c # part) # parts))"

definition isValidKeyPath :: "string \<Rightarrow> bool" where
  "isValidKeyPath keyPath = (keyPath = [] \<or> list_all isIdentifier (splitDots keyPath))"

text \<open>
  The engine evaluates a key path on a record identifier by identifier: on an object an
  identifier reads the own property of that name, on a string only \<^verbatim>\<open>length\<close> can be
  read, and the evaluation fails on any other value, on a property that is missing and
  on the value \<^verbatim>\<open>undefined\<close>. A record has a key in an index when the evaluation of the
  key path of the index gives a key. A field name with a period is thus read as a path
  into nested objects and not as the property of that name.
\<close>

fun keyPathStep :: "jsval \<Rightarrow> string \<Rightarrow> jsval option" where
  "keyPathStep (JStr s) identifier =
     (if identifier = ''length'' then Some (JNum (int (length s))) else None)"
| "keyPathStep (JObj es) identifier =
     (case map_of es identifier of
        None \<Rightarrow> None
      | Some v \<Rightarrow> if v = JUndefined then None else Some v)"
| "keyPathStep v identifier = None"

definition evaluateKeyPath :: "string \<Rightarrow> jsval \<Rightarrow> jsval option" where
  "evaluateKeyPath keyPath v =
     (if keyPath = [] then Some v
      else foldl (\<lambda>acc identifier. case acc of None \<Rightarrow> None | Some x \<Rightarrow> keyPathStep x identifier)
             (Some v) (splitDots keyPath))"

definition keyAt :: "string \<Rightarrow> jsobj \<Rightarrow> idbKey option" where
  "keyAt field obj =
     (case evaluateKeyPath field (JObj obj) of None \<Rightarrow> None | Some v \<Rightarrow> toKey v)"

text \<open>
  \<^verbatim>\<open>store.add(row)\<close> on a store with key path \<^verbatim>\<open>id\<close> and a key generator: a row without
  an \<^verbatim>\<open>id\<close> gets the next generated key and goes last; a row that brings its own key, the
  text of its cell \<^verbatim>\<open>id\<close>, is placed by that key, and the request fails when the key is
  taken.
\<close>

definition storeAdd :: "ObjectStore \<Rightarrow> row \<Rightarrow> ObjectStore option" where
  "storeAdd store r =
     (let obj = map (\<lambda>(k, v). (k, JStr v)) r in
      case map_of obj ''id'' of
        None \<Rightarrow>
          Some (store\<lparr>records := records store @ [obj @ [(''id'', JNum (int (keyGenerator store)))]],
                      keyGenerator := keyGenerator store + 1\<rparr>)
      | Some v \<Rightarrow>
          (if keyAt ''id'' obj \<in> set (map (keyAt ''id'') (records store)) then None
           else Some (store\<lparr>records := insort_key (keyAt ''id'') obj (records store)\<rparr>)))"

fun storeAddAll :: "ObjectStore \<Rightarrow> row list \<Rightarrow> ObjectStore option" where
  "storeAddAll store [] = Some store"
| "storeAddAll store (r # rs) =
     (case storeAdd store r of None \<Rightarrow> None | Some store' \<Rightarrow> storeAddAll store' rs)"

text \<open>\<^verbatim>\<open>store.clear()\<close>: the records go, the key generator stays.\<close>

definition storeClear :: "ObjectStore \<Rightarrow> ObjectStore" where
  "storeClear store = store\<lparr>records := []\<rparr>"

section \<open>Parsing and normalising the imported file\<close>

text \<open>
  \<^verbatim>\<open>Papa.parse\<close> is the parser of a library: the services read the \<^verbatim>\<open>data\<close> and the
  \<^verbatim>\<open>errors\<close> of its result, an error by its \<^verbatim>\<open>message\<close>.
\<close>

record ParseResult =
  data :: "jsval list"
  errors :: "string option list"

text \<open>
  The services call it with the options \<^verbatim>\<open>header\<close> and \<^verbatim>\<open>transformHeader\<close>. The parser
  proper is a parameter of the model: it yields the records as the file has them, each
  the list of its headers, as they stand in the file and in the order of the file, with
  the values under them. The library applies the header function to every header, gives
  a header that has come before the first unused name with a counter after it
  (\<^verbatim>\<open>a\<close>, \<^verbatim>\<open>a_1\<close>, \<^verbatim>\<open>a_2\<close>), and builds the row, a plain object, by assigning the values
  to the headers in the order of the file.
\<close>

definition suffixed :: "string \<Rightarrow> nat \<Rightarrow> string" where
  "suffixed header n = header @ ''_'' @ showNat n"

fun renameHeaders ::
  "(string \<Rightarrow> string) \<Rightarrow> string list \<Rightarrow> (string \<times> nat) list \<Rightarrow> string list \<Rightarrow> string list"
where
  "renameHeaders transformHeader usedHeaders headerCount [] = []"
| "renameHeaders transformHeader usedHeaders headerCount (h # hs) =
     (let header = transformHeader h in
      case map_of headerCount header of
        None \<Rightarrow>
          header #
            renameHeaders transformHeader (header # usedHeaders) ((header, 1) # headerCount) hs
      | Some n \<Rightarrow>
          (case find (\<lambda>c. suffixed header c \<notin> set usedHeaders) [n ..< n + length usedHeaders + 1] of
             None \<Rightarrow> []
           | Some c \<Rightarrow>
               suffixed header c #
                 renameHeaders transformHeader (header # suffixed header c # usedHeaders)
                   (AList.update header (n + 1) headerCount) hs))"

definition transformHeaders :: "(string \<Rightarrow> string) \<Rightarrow> jsval \<Rightarrow> jsval" where
  "transformHeaders transformHeader r =
     (case r of
        JObj es \<Rightarrow>
          JObj (foldl (\<lambda>acc e. case e of (k, v) \<Rightarrow> objSet k v acc) []
                  (zip (renameHeaders transformHeader (map fst es) [] (map fst es)) (map snd es)))
      | _ \<Rightarrow> r)"

definition papaParse ::
  "(string \<Rightarrow> ParseResult) \<Rightarrow> (string \<Rightarrow> string) \<Rightarrow> string \<Rightarrow> ParseResult"
where
  "papaParse parser transformHeader csvText =
     (let parsed = parser csvText in
      \<lparr>data = map (transformHeaders transformHeader) (data parsed), errors = errors parsed\<rparr>)"

record ImportResult =
  totalRows :: nat
  importedFields :: "string list"

text \<open>\<^verbatim>\<open>typeof row === 'object' && row !== null\<close>.\<close>

fun isObject :: "jsval \<Rightarrow> bool" where
  "isObject (JObj es) = True"
| "isObject v = False"

text \<open>\<^verbatim>\<open>Object.entries(row)\<close>.\<close>

fun entries :: "jsval \<Rightarrow> jsobj" where
  "entries (JObj es) = es"
| "entries v = []"

definition normalizeEntry :: "row \<Rightarrow> string \<times> jsval \<Rightarrow> row" where
  "normalizeEntry nextRow e =
     (case e of (key, v) \<Rightarrow>
        if trim key = [] then nextRow else objSet key (stringOrEmpty v) nextRow)"

definition normalizeCsvRows :: "jsval list \<Rightarrow> row list" where
  "normalizeCsvRows rs =
     filter (\<lambda>r. length (map fst r) > 0)
       (map (\<lambda>r. foldl normalizeEntry [] (entries r)) (filter isObject rs))"

text \<open>\<^verbatim>\<open>rows.length > 0 ? Object.keys(rows[0]) : []\<close>.\<close>

fun firstRowKeys :: "row list \<Rightarrow> string list" where
  "firstRowKeys [] = []"
| "firstRowKeys (r # rs) = map fst r"

text \<open>\<^verbatim>\<open>parseResult.errors[0]?.message ?? 'Unable to parse CSV file.'\<close>.\<close>

fun firstErrorMessage :: "string option list \<Rightarrow> string" where
  "firstErrorMessage (Some m # es) = m"
| "firstErrorMessage es = ''Unable to parse CSV file.''"

text \<open>
  What a service throws: an \<^verbatim>\<open>Error\<close> with its message, the failure of a request of
  the storage engine (a key that is taken, a store that is missing, a key path that has
  no index), or the \<^verbatim>\<open>TypeError\<close> of reading a property of \<^verbatim>\<open>undefined\<close>.
\<close>

datatype error = Error string | ConstraintError | NotFoundError | SchemaError string | TypeError

text \<open>
  The loop shared by \<^verbatim>\<open>sanitizeStoredRows\<close> and \<^verbatim>\<open>toDisplayRows\<close>: every entry but
  \<^verbatim>\<open>id\<close>, its value as text.
\<close>

definition displayEntry :: "row \<Rightarrow> string \<times> jsval \<Rightarrow> row" where
  "displayEntry nextRow e =
     (case e of (key, v) \<Rightarrow>
        if key = ''id'' then nextRow else objSet key (stringOrEmpty v) nextRow)"

section \<open>The cache-backed service\<close>

record ProjectRowsCacheEntry =
  cachedRows :: "row list"
  cachedFields :: "string list"

record CacheService =
  database :: Database
  projectRowsCache :: "string \<Rightarrow> ProjectRowsCacheEntry option"

text \<open>
  \<^verbatim>\<open>getDb(version, storeToCreate)\<close> with a new version: the upgrade creates the store of
  the projects and the named store where they are missing.
\<close>

definition getDbUpgrade :: "string \<Rightarrow> Database \<Rightarrow> Database" where
  "getDbUpgrade storeToCreate db =
     (let stores1 =
            (if objectStores db PROJECTS_STORE_NAME = None
             then (objectStores db)(PROJECTS_STORE_NAME \<mapsto> emptyStore [])
             else objectStores db);
          stores2 =
            (if storeToCreate \<noteq> [] \<and> stores1 storeToCreate = None
             then stores1(storeToCreate \<mapsto> emptyStore [])
             else stores1)
      in \<lparr>version = version db + 1, objectStores = stores2\<rparr>)"

definition ensureProjectStore :: "string \<Rightarrow> Database \<Rightarrow> error option \<times> Database" where
  "ensureProjectStore projectId db =
     (if objectStores db projectId \<noteq> None then (None, db)
      else
        (let nextDb = getDbUpgrade projectId db in
         if objectStores nextDb projectId = None
         then (Some (Error ''Unable to create a project table in IndexedDB.''), nextDb)
         else (None, nextDb)))"

definition deleteProjectStore_cache :: "string \<Rightarrow> Database \<Rightarrow> Database" where
  "deleteProjectStore_cache projectId db =
     (if objectStores db projectId = None then db
      else
        (let stores1 =
               (if objectStores db PROJECTS_STORE_NAME = None
                then (objectStores db)(PROJECTS_STORE_NAME \<mapsto> emptyStore [])
                else objectStores db)
         in \<lparr>version = version db + 1, objectStores = stores1(projectId := None)\<rparr>))"

definition sortRows ::
  "(CollatorOptions \<Rightarrow> string \<Rightarrow> 'k::linorder) \<Rightarrow> row list \<Rightarrow> string \<Rightarrow> SortDirection \<Rightarrow> row list"
where
  "sortRows ck rs field direction =
     (let multiplier = (if direction = desc then - 1 else 1) in
      arraySort
        (\<lambda>left right.
           localeCompare ck (cell left field) (cell right field)
             \<lparr>numeric = True, sensitivity = Base\<rparr> * multiplier)
        rs)"

definition sanitizeStoredRows :: "jsval list \<Rightarrow> row list" where
  "sanitizeStoredRows rawRows =
     map (\<lambda>r. if \<not> isObject r then [] else foldl displayEntry [] (entries r)) rawRows"

definition loadAndCacheProjectRows ::
  "string \<Rightarrow> CacheService \<Rightarrow> ProjectRowsCacheEntry \<times> CacheService"
where
  "loadAndCacheProjectRows projectId st =
     (case objectStores (database st) projectId of
        None \<Rightarrow>
          (let emptyEntry = \<lparr>cachedRows = [], cachedFields = []\<rparr> in
           (emptyEntry, st\<lparr>projectRowsCache := (projectRowsCache st)(projectId \<mapsto> emptyEntry)\<rparr>))
      | Some store \<Rightarrow>
          (let rs = sanitizeStoredRows (map JObj (records store));
               cacheEntry = \<lparr>cachedRows = rs, cachedFields = firstRowKeys rs\<rparr>
           in (cacheEntry, st\<lparr>projectRowsCache := (projectRowsCache st)(projectId \<mapsto> cacheEntry)\<rparr>)))"

text \<open>\<^verbatim>\<open>projectRowsCache.get(projectId) ?? (await loadAndCacheProjectRows(projectId))\<close>.\<close>

definition cachedOrLoaded ::
  "string \<Rightarrow> CacheService \<Rightarrow> ProjectRowsCacheEntry \<times> CacheService"
where
  "cachedOrLoaded projectId st =
     (case projectRowsCache st projectId of
        Some cachedEntry \<Rightarrow> (cachedEntry, st)
      | None \<Rightarrow> loadAndCacheProjectRows projectId st)"

text \<open>
  \<^verbatim>\<open>queryProjectRows\<close> of the cache-backed service, in the three steps it takes on the
  cached rows: the filter, the sort (\<open>processedRows\<close>) and the slice of the page.
\<close>

definition filterRows :: "QueryProjectRowsParams \<Rightarrow> row list \<Rightarrow> row list" where
  "filterRows params rs =
     (let normalizedFilterValue = trim (orEmpty (filterValue params)) in
      if truthy (filterField params) \<and> normalizedFilterValue \<noteq> []
      then
        (let queryText = toLocaleLowerCase normalizedFilterValue in
         filter
           (\<lambda>r. includes_str (toLocaleLowerCase (cell r (orEmpty (filterField params)))) queryText)
           rs)
      else rs)"

definition processedRows ::
  "(CollatorOptions \<Rightarrow> string \<Rightarrow> 'k::linorder) \<Rightarrow> QueryProjectRowsParams \<Rightarrow> row list \<Rightarrow> row list"
where
  "processedRows ck params rs =
     (if truthy (sortField params)
      then sortRows ck (filterRows params rs) (orEmpty (sortField params))
             (case sortDirection params of None \<Rightarrow> asc | Some d \<Rightarrow> d)
      else filterRows params rs)"

definition queryProjectRows_cache ::
  "(CollatorOptions \<Rightarrow> string \<Rightarrow> 'k::linorder) \<Rightarrow> string \<Rightarrow> QueryProjectRowsParams \<Rightarrow> CacheService
     \<Rightarrow> QueryProjectRowsResult \<times> CacheService"
where
  "queryProjectRows_cache ck projectId params st =
     (let cachedEntry = fst (cachedOrLoaded projectId st);
          processed = processedRows ck params (cachedRows cachedEntry);
          startIndex = nat ((max (page params) 1 - 1) * max (pageSize params) 1);
          paginatedRows = slice processed startIndex (startIndex + nat (max (pageSize params) 1))
      in (\<lparr>rows = paginatedRows,
           fieldList = cachedFields cachedEntry,
           total = length processed,
           sql = buildSqlLikeQuery_cache projectId params\<rparr>,
          snd (cachedOrLoaded projectId st)))"

text \<open>
  \<^verbatim>\<open>importCsv\<close> of the cache-backed service. A transaction that fails is rolled back by
  the engine: nothing of it is written.
\<close>

definition importCsv_cache ::
  "(string \<Rightarrow> ParseResult) \<Rightarrow> string \<Rightarrow> string \<Rightarrow> CacheService
     \<Rightarrow> (error + ImportResult) \<times> CacheService"
where
  "importCsv_cache parser projectId csvText st =
     (case ensureProjectStore projectId (database st) of
        (Some e, db1) \<Rightarrow> (Inl e, st\<lparr>database := db1\<rparr>)
      | (None, db1) \<Rightarrow>
          (let parseResult = papaParse parser trim csvText in
           if errors parseResult \<noteq> []
           then (Inl (Error (firstErrorMessage (errors parseResult))), st\<lparr>database := db1\<rparr>)
           else
             (let rs = normalizeCsvRows (data parseResult);
                  fs = firstRowKeys rs
              in case objectStores db1 projectId of
                   None \<Rightarrow> (Inl NotFoundError, st\<lparr>database := db1\<rparr>)
                 | Some store \<Rightarrow>
                     (case storeAddAll (storeClear store) rs of
                        None \<Rightarrow> (Inl ConstraintError, st\<lparr>database := db1\<rparr>)
                      | Some store' \<Rightarrow>
                          (Inr \<lparr>totalRows = length rs, importedFields = fs\<rparr>,
                           \<lparr>database = db1\<lparr>objectStores := (objectStores db1)(projectId \<mapsto> store')\<rparr>,
                            projectRowsCache =
                              (projectRowsCache st)
                                (projectId \<mapsto> \<lparr>cachedRows = rs, cachedFields = fs\<rparr>)\<rparr>)))))"

definition deleteProjectTable_cache :: "string \<Rightarrow> CacheService \<Rightarrow> CacheService" where
  "deleteProjectTable_cache projectId st =
     \<lparr>database = deleteProjectStore_cache projectId (database st),
      projectRowsCache = (projectRowsCache st)(projectId := None)\<rparr>"

section \<open>The index-backed service\<close>

text \<open>\<^verbatim>\<open>Array.from(new Set(fields.map(trim).filter(Boolean))).sort()\<close>.\<close>

definition normalizeIndexFields :: "string list \<Rightarrow> string list" where
  "normalizeIndexFields fs = sort (remdups (filter (\<lambda>f. f \<noteq> []) (map trim fs)))"

definition hasSameProjectStoreSchema :: "Database \<Rightarrow> string \<Rightarrow> string list \<Rightarrow> bool" where
  "hasSameProjectStoreSchema openedDb projectId fs =
     (case objectStores openedDb projectId of
        None \<Rightarrow> False
      | Some store \<Rightarrow> sort (indexNames store) = normalizeIndexFields fs)"

text \<open>
  \<^verbatim>\<open>openIndexedDb\<close> with a new version: the upgrade deletes and creates the named
  store and seeds it. It asks for an index on every field, with the field as the name and
  as the key path; \<^verbatim>\<open>createIndex\<close> throws for a field that is no valid key path, which
  the source catches and ignores, so the store has the indexes of the fields that are
  valid key paths. A request to add a row that fails aborts the upgrade, and the database
  stays as it was.
\<close>

definition openIndexedDb ::
  "string \<Rightarrow> string option \<Rightarrow> string list \<Rightarrow> row list \<Rightarrow> Database \<Rightarrow> Database option"
where
  "openIndexedDb storeToCreate storeToDelete indexFields rowsToSeed db =
     (let stores1 =
            (if objectStores db PROJECTS_STORE_NAME = None
             then (objectStores db)(PROJECTS_STORE_NAME \<mapsto> emptyStore [])
             else objectStores db);
          stores2 =
            (case storeToDelete of
               None \<Rightarrow> stores1
             | Some d \<Rightarrow> if d \<noteq> [] then stores1(d := None) else stores1)
      in if storeToCreate \<noteq> [] \<and> stores2 storeToCreate = None
         then
           (case storeAddAll (emptyStore (filter isValidKeyPath indexFields)) rowsToSeed of
              None \<Rightarrow> None
            | Some store \<Rightarrow>
                Some \<lparr>version = version db + 1, objectStores = stores2(storeToCreate \<mapsto> store)\<rparr>)
         else Some \<lparr>version = version db + 1, objectStores = stores2\<rparr>)"

definition importRowsIntoProjectStore ::
  "string \<Rightarrow> string list \<Rightarrow> row list \<Rightarrow> Database \<Rightarrow> Database option"
where
  "importRowsIntoProjectStore projectId fs rs db =
     (let hasStore = (objectStores db projectId \<noteq> None);
          sameSchema = (if hasStore then hasSameProjectStoreSchema db projectId fs else False)
      in if hasStore \<and> sameSchema
         then
           (case objectStores db projectId of
              None \<Rightarrow> None
            | Some store \<Rightarrow>
                (case storeAddAll (storeClear store) rs of
                   None \<Rightarrow> None
                 | Some store' \<Rightarrow> Some (db\<lparr>objectStores := (objectStores db)(projectId \<mapsto> store')\<rparr>)))
         else
           openIndexedDb projectId (if hasStore then Some projectId else None)
             (normalizeIndexFields fs) rs db)"

definition deleteProjectStore_dexie :: "string \<Rightarrow> Database \<Rightarrow> Database" where
  "deleteProjectStore_dexie projectId db =
     (case objectStores db projectId of
        None \<Rightarrow> db
      | Some store \<Rightarrow> db\<lparr>objectStores := (objectStores db)(projectId \<mapsto> storeClear store)\<rparr>)"

definition hasProjectStore :: "Database \<Rightarrow> string \<Rightarrow> bool" where
  "hasProjectStore db projectId = (objectStores db projectId \<noteq> None)"

definition toDisplayRows :: "jsobj list \<Rightarrow> row list" where
  "toDisplayRows rs = map (\<lambda>rawRow. foldl displayEntry [] rawRow) rs"

definition importCsv_dexie ::
  "(string \<Rightarrow> ParseResult) \<Rightarrow> string \<Rightarrow> string \<Rightarrow> Database \<Rightarrow> (error + ImportResult) \<times> Database"
where
  "importCsv_dexie parser projectId csvText db =
     (let parseResult = papaParse parser trim csvText in
      if errors parseResult \<noteq> []
      then (Inl (Error (firstErrorMessage (errors parseResult))), db)
      else
        (let rs = normalizeCsvRows (data parseResult);
             fs = firstRowKeys rs
         in case importRowsIntoProjectStore projectId fs rs db of
              None \<Rightarrow> (Inl ConstraintError, db)
            | Some db' \<Rightarrow> (Inr \<lparr>totalRows = length rs, importedFields = fs\<rparr>, db')))"

subsection \<open>Collections of the query library\<close>

text \<open>
  The service reads a store through the collections of Dexie. A collection over an
  index yields the records that have a key at the key path of the index, in the order of
  that key and, among equal keys, of the primary key; a query on a key path without an
  index is rejected. The primary key can be queried as an index.
\<close>

definition indexed :: "ObjectStore \<Rightarrow> string \<Rightarrow> bool" where
  "indexed table field = (field \<in> set (indexNames table) \<or> field = ''id'')"

definition indexRecords :: "ObjectStore \<Rightarrow> string \<Rightarrow> jsobj list" where
  "indexRecords table field =
     sort_key (keyAt field) (filter (\<lambda>obj. keyAt field obj \<noteq> None) (records table))"

text \<open>
  \<^verbatim>\<open>table.where(field).startsWithIgnoreCase(needle)\<close>: the records of the index whose
  key is a string that starts with the needle, both in lower case.
\<close>

definition matchesIgnoreCase :: "string \<Rightarrow> string \<Rightarrow> jsobj \<Rightarrow> bool" where
  "matchesIgnoreCase field needle obj =
     (case evaluateKeyPath field (JObj obj) of
        Some (JStr key) \<Rightarrow> startsWith (toLowerCase key) (toLowerCase needle)
      | _ \<Rightarrow> False)"

definition whereStartsWithIgnoreCase :: "ObjectStore \<Rightarrow> string \<Rightarrow> string \<Rightarrow> error + jsobj list" where
  "whereStartsWithIgnoreCase table field needle =
     (if indexed table field
      then Inr (filter (matchesIgnoreCase field needle) (indexRecords table field))
      else Inl (SchemaError field))"

text \<open>\<^verbatim>\<open>table.orderBy(field)\<close>.\<close>

definition orderBy :: "ObjectStore \<Rightarrow> string \<Rightarrow> error + jsobj list" where
  "orderBy table field =
     (if indexed table field then Inr (indexRecords table field) else Inl (SchemaError field))"

text \<open>
  \<^verbatim>\<open>collection.sortBy(keyPath)\<close> sorts the array of the collection in memory and needs no
  index. It reads the value to compare with \<^verbatim>\<open>obj[part]\<close> for every part of the key path
  split at its periods: a property that is missing reads as \<^verbatim>\<open>undefined\<close>, a string has
  its \<^verbatim>\<open>length\<close> and its characters, and reading a property of \<^verbatim>\<open>undefined\<close> or \<^verbatim>\<open>null\<close>
  throws. The values are compared as keys: numbers by value, strings by their code units,
  a string above any value that is no string, and any other two values as equal. An array
  of fewer than two rows is returned without a comparison.
\<close>

fun getProperty :: "jsval \<Rightarrow> string \<Rightarrow> error + jsval" where
  "getProperty JUndefined part = Inl TypeError"
| "getProperty JNull part = Inl TypeError"
| "getProperty (JObj es) part = Inr (case map_of es part of None \<Rightarrow> JUndefined | Some v \<Rightarrow> v)"
| "getProperty (JStr s) part =
     Inr (if part = ''length'' then JNum (int (length s))
          else if isArrayIndex part \<and> indexValue part < int (length s)
          then JStr [s ! nat (indexValue part)]
          else JUndefined)"
| "getProperty v part = Inr JUndefined"

definition getval :: "string \<Rightarrow> jsval \<Rightarrow> error + jsval" where
  "getval keyPath v =
     foldl (\<lambda>acc part. case acc of Inl e \<Rightarrow> Inl e | Inr x \<Rightarrow> getProperty x part)
       (Inr v) (splitDots keyPath)"

definition valueAt :: "string \<Rightarrow> jsobj \<Rightarrow> jsval" where
  "valueAt keyPath obj = (case getval keyPath (JObj obj) of Inl e \<Rightarrow> JUndefined | Inr v \<Rightarrow> v)"

definition cmpValues :: "jsval \<Rightarrow> jsval \<Rightarrow> int" where
  "cmpValues v w =
     (case v of
        JNum a \<Rightarrow>
          (case w of
             JNum b \<Rightarrow> (if a < b then - 1 else if a = b then 0 else 1)
           | JStr b \<Rightarrow> - 1
           | _ \<Rightarrow> 0)
      | JStr a \<Rightarrow>
          (case w of
             JStr b \<Rightarrow> (if a < b then - 1 else if a = b then 0 else 1)
           | _ \<Rightarrow> 1)
      | _ \<Rightarrow> (case w of JStr b \<Rightarrow> - 1 | _ \<Rightarrow> 0))"

definition sortBy :: "string \<Rightarrow> jsobj list \<Rightarrow> error + jsobj list" where
  "sortBy keyPath collection =
     (if length collection < 2 then Inr collection
      else if list_ex (\<lambda>obj. isl (getval keyPath (JObj obj))) collection then Inl TypeError
      else Inr (arraySort (\<lambda>a b. cmpValues (valueAt keyPath a) (valueAt keyPath b)) collection))"

text \<open>\<^verbatim>\<open>collection.offset(offset).limit(limit).toArray()\<close>.\<close>

definition offsetLimit :: "nat \<Rightarrow> nat \<Rightarrow> 'a list \<Rightarrow> 'a list" where
  "offsetLimit offset limit collection = take limit (drop offset collection)"

subsection \<open>The retrieval strategies of the query\<close>

text \<open>
  The five branches of \<^verbatim>\<open>queryProjectRows\<close>; each gives the total and the rows of the
  page.
\<close>

definition combinedStrategy ::
  "ObjectStore \<Rightarrow> string \<Rightarrow> string \<Rightarrow> bool \<Rightarrow> nat \<Rightarrow> nat \<Rightarrow> error + nat \<times> row list"
where
  "combinedStrategy table ff needle isDesc offset limit =
     (case whereStartsWithIgnoreCase table ff needle of
        Inl e \<Rightarrow> Inl e
      | Inr found \<Rightarrow>
          (let collection = (if isDesc then rev found else found) in
           Inr (length collection, toDisplayRows (offsetLimit offset limit collection))))"

definition filterThenSortStrategy ::
  "ObjectStore \<Rightarrow> string \<Rightarrow> string \<Rightarrow> string \<Rightarrow> bool \<Rightarrow> nat \<Rightarrow> nat \<Rightarrow> error + nat \<times> row list"
where
  "filterThenSortStrategy table ff sf needle isDesc offset limit =
     (case whereStartsWithIgnoreCase table ff needle of
        Inl e \<Rightarrow> Inl e
      | Inr filteredCollection \<Rightarrow>
          (case sortBy sf filteredCollection of
             Inl e \<Rightarrow> Inl e
           | Inr sortedRows \<Rightarrow>
               (let arrangedRows = (if isDesc then rev sortedRows else sortedRows) in
                Inr (length filteredCollection,
                     toDisplayRows (slice arrangedRows offset (offset + limit))))))"

definition filterStrategy ::
  "ObjectStore \<Rightarrow> string \<Rightarrow> string \<Rightarrow> nat \<Rightarrow> nat \<Rightarrow> error + nat \<times> row list"
where
  "filterStrategy table ff needle offset limit =
     (case whereStartsWithIgnoreCase table ff needle of
        Inl e \<Rightarrow> Inl e
      | Inr collection \<Rightarrow>
          Inr (length collection, toDisplayRows (offsetLimit offset limit collection)))"

definition sortStrategy ::
  "ObjectStore \<Rightarrow> string \<Rightarrow> bool \<Rightarrow> nat \<Rightarrow> nat \<Rightarrow> error + nat \<times> row list"
where
  "sortStrategy table sf isDesc offset limit =
     (case orderBy table sf of
        Inl e \<Rightarrow> Inl e
      | Inr ordered \<Rightarrow>
          (let collection = (if isDesc then rev ordered else ordered) in
           Inr (length (records table), toDisplayRows (offsetLimit offset limit collection))))"

definition scanStrategy :: "ObjectStore \<Rightarrow> nat \<Rightarrow> nat \<Rightarrow> error + nat \<times> row list" where
  "scanStrategy table offset limit =
     Inr (length (records table), toDisplayRows (offsetLimit offset limit (records table)))"

text \<open>The chain of conditions of \<^verbatim>\<open>queryProjectRows\<close> that chooses the strategy.\<close>

definition retrieveRows :: "ObjectStore \<Rightarrow> QueryProjectRowsParams \<Rightarrow> error + nat \<times> row list" where
  "retrieveRows table params =
     (let normalizedFilterValue = trim (orEmpty (filterValue params));
          offset = nat ((max (page params) 1 - 1) * max (pageSize params) 1);
          limit = nat (max (pageSize params) 1);
          hasFilter = (truthy (filterField params) \<and> normalizedFilterValue \<noteq> []);
          hasSort = truthy (sortField params);
          isDesc = (sortDirection params = Some desc);
          ff = orEmpty (filterField params);
          sf = orEmpty (sortField params)
      in if hasFilter \<and> hasSort \<and> ff = sf
         then combinedStrategy table ff normalizedFilterValue isDesc offset limit
         else if hasFilter \<and> hasSort \<and> ff \<noteq> [] \<and> sf \<noteq> []
         then filterThenSortStrategy table ff sf normalizedFilterValue isDesc offset limit
         else if hasFilter \<and> ff \<noteq> []
         then filterStrategy table ff normalizedFilterValue offset limit
         else if hasSort \<and> sf \<noteq> []
         then sortStrategy table sf isDesc offset limit
         else scanStrategy table offset limit)"

text \<open>
  The reference for the combined strategy: the same chain without its first branch, so
  that a filter and a sort, on one field or on two, are always the filter step followed
  by the sort step.
\<close>

definition retrieveRowsInTwoSteps ::
  "ObjectStore \<Rightarrow> QueryProjectRowsParams \<Rightarrow> error + nat \<times> row list"
where
  "retrieveRowsInTwoSteps table params =
     (let normalizedFilterValue = trim (orEmpty (filterValue params));
          offset = nat ((max (page params) 1 - 1) * max (pageSize params) 1);
          limit = nat (max (pageSize params) 1);
          hasFilter = (truthy (filterField params) \<and> normalizedFilterValue \<noteq> []);
          hasSort = truthy (sortField params);
          isDesc = (sortDirection params = Some desc);
          ff = orEmpty (filterField params);
          sf = orEmpty (sortField params)
      in if hasFilter \<and> hasSort \<and> ff \<noteq> [] \<and> sf \<noteq> []
         then filterThenSortStrategy table ff sf normalizedFilterValue isDesc offset limit
         else if hasFilter \<and> ff \<noteq> []
         then filterStrategy table ff normalizedFilterValue offset limit
         else if hasSort \<and> sf \<noteq> []
         then sortStrategy table sf isDesc offset limit
         else scanStrategy table offset limit)"

text \<open>
  \<^verbatim>\<open>queryProjectRows\<close> of the index-backed service around the retrieval: the empty
  result of a project without a store, and the fields of the first row of the page.
\<close>

definition queryWith ::
  "(ObjectStore \<Rightarrow> QueryProjectRowsParams \<Rightarrow> error + nat \<times> row list)
     \<Rightarrow> Database \<Rightarrow> string \<Rightarrow> QueryProjectRowsParams \<Rightarrow> error + QueryProjectRowsResult"
where
  "queryWith retrieve db projectId params =
     (if \<not> hasProjectStore db projectId
      then Inr \<lparr>rows = [], fieldList = [], total = 0,
                sql = buildSqlLikeQuery_dexie projectId params\<rparr>
      else
        (case objectStores db projectId of
           None \<Rightarrow> Inl NotFoundError
         | Some table \<Rightarrow>
             (case retrieve table params of
                Inl e \<Rightarrow> Inl e
              | Inr (n, paginatedRows) \<Rightarrow>
                  Inr \<lparr>rows = paginatedRows,
                       fieldList = firstRowKeys paginatedRows,
                       total = n,
                       sql = buildSqlLikeQuery_dexie projectId params\<rparr>)))"

definition queryProjectRows_dexie ::
  "Database \<Rightarrow> string \<Rightarrow> QueryProjectRowsParams \<Rightarrow> error + QueryProjectRowsResult"
where
  "queryProjectRows_dexie = queryWith retrieveRows"

definition queryProjectRows_twoSteps ::
  "Database \<Rightarrow> string \<Rightarrow> QueryProjectRowsParams \<Rightarrow> error + QueryProjectRowsResult"
where
  "queryProjectRows_twoSteps = queryWith retrieveRowsInTwoSteps"

section \<open>Example data\<close>


definition exampleStore :: ObjectStore where
  "exampleStore =
     \<lparr>indexNames = [''age'', ''name''],
      records =
        [[(''name'', JStr ''Bob''), (''age'', JStr ''30''), (''id'', JNum 1)],
         [(''name'', JStr ''ann''), (''age'', JStr ''25''), (''id'', JNum 2)],
         [(''name'', JStr ''Ann''), (''age'', JStr ''7''), (''id'', JNum 3)],
         [(''name'', JStr ''Ann''), (''age'', JStr ''10''), (''id'', JNum 4)]],
      keyGenerator = 5\<rparr>"

definition exampleDb :: Database where
  "exampleDb =
     \<lparr>version = 2,
      objectStores = [PROJECTS_STORE_NAME \<mapsto> emptyStore [], ''p1'' \<mapsto> exampleStore]\<rparr>"

definition exampleService :: CacheService where
  "exampleService = \<lparr>database = exampleDb, projectRowsCache = Map.empty\<rparr>"

definition exampleParams :: QueryProjectRowsParams where
  "exampleParams =
     \<lparr>page = 1, pageSize = 10, sortField = None, sortDirection = None,
      filterField = None, filterValue = None\<rparr>"


definition exampleBlankFilter :: QueryProjectRowsParams where
  "exampleBlankFilter = exampleParams\<lparr>filterField := Some ''name'', filterValue := Some '' ''\<rparr>"


text \<open>
  A file of two rows whose first header has a period, \<^verbatim>\<open>user.name\<close>, and a file of one
  row whose first header has a space, \<^verbatim>\<open>first name\<close>, each with the parser's records for
  it, and the requests that filter and sort by these headers.
\<close>

definition exampleDottedCsv :: string where
  "exampleDottedCsv =
     ''user.name,city'' @ [CHR 0x0A] @ ''alice,Oslo'' @ [CHR 0x0A] @ ''bob,Rome''"

definition exampleDottedParse :: "string \<Rightarrow> ParseResult" where
  "exampleDottedParse csvText =
     \<lparr>data = [JObj [(''user.name'', JStr ''alice''), (''city'', JStr ''Oslo'')],
              JObj [(''user.name'', JStr ''bob''), (''city'', JStr ''Rome'')]],
      errors = []\<rparr>"

definition exampleSpacedCsv :: string where
  "exampleSpacedCsv = ''first name,city'' @ [CHR 0x0A] @ ''alice,Oslo''"

definition exampleSpacedParse :: "string \<Rightarrow> ParseResult" where
  "exampleSpacedParse csvText =
     \<lparr>data = [JObj [(''first name'', JStr ''alice''), (''city'', JStr ''Oslo'')]], errors = []\<rparr>"

definition exampleDottedFilter :: QueryProjectRowsParams where
  "exampleDottedFilter =
     exampleParams\<lparr>filterField := Some ''user.name'', filterValue := Some ''al''\<rparr>"

definition exampleSpacedFilter :: QueryProjectRowsParams where
  "exampleSpacedFilter =
     exampleParams\<lparr>filterField := Some ''first name'', filterValue := Some ''al''\<rparr>"

definition exampleDottedSort :: QueryProjectRowsParams where
  "exampleDottedSort = exampleParams\<lparr>sortField := Some ''user.name''\<rparr>"

text \<open>A parser that reports one structural error for every text.\<close>

definition exampleFailingParse :: "string \<Rightarrow> ParseResult" where
  "exampleFailingParse csvText =
     \<lparr>data = [JObj [(''a'', JStr ''1''), (''b'', JStr ''2'')]],
      errors = [Some ''Too many fields: expected 2 fields but parsed 3'']\<rparr>"

section \<open>Properties of the strings\<close>

lemma startsWith_iff: "startsWith s t \<longleftrightarrow> (\<exists>w. s = t @ w)"
  by (induction s t rule: startsWith.induct) auto

lemma includes_str_iff: "includes_str s t \<longleftrightarrow> (\<exists>u w. s = u @ t @ w)"
proof (induction s)
  case Nil
  then show ?case by auto
next
  case (Cons c cs)
  show ?case
  proof
    assume "includes_str (c # cs) t"
    then consider "startsWith (c # cs) t" | "includes_str cs t" by auto
    then show "\<exists>u w. c # cs = u @ t @ w"
    proof cases
      case 1
      then obtain w where "c # cs = t @ w" by (auto simp: startsWith_iff)
      then have "c # cs = [] @ t @ w" by simp
      then show ?thesis by blast
    next
      case 2
      with Cons obtain u w where "cs = u @ t @ w" by blast
      then have "c # cs = (c # u) @ t @ w" by simp
      then show ?thesis by blast
    qed
  next
    assume "\<exists>u w. c # cs = u @ t @ w"
    then obtain u w where uw: "c # cs = u @ t @ w" by blast
    show "includes_str (c # cs) t"
    proof (cases u)
      case Nil
      with uw have "startsWith (c # cs) t" by (auto simp: startsWith_iff)
      then show ?thesis by simp
    next
      case (Cons d u')
      with uw have "cs = u' @ t @ w" by simp
      with Cons.IH have "includes_str cs t" by blast
      then show ?thesis by simp
    qed
  qed
qed

lemma truthy_orEmpty: "truthy x \<longleftrightarrow> orEmpty x \<noteq> []"
  by (cases x) auto


lemma trim_Nil: "trim [] = []"
  by (simp add: trim_def)


text \<open>
  What \<^verbatim>\<open>trim\<close> does to a string, said without it: of white space, a core that neither
  starts nor ends with white space, and white space again, the core is left.
\<close>

lemma trim_spec:
  assumes "list_all isWhiteSpace a" and "list_all isWhiteSpace b"
    and "c = [] \<or> (\<not> isWhiteSpace (hd c) \<and> \<not> isWhiteSpace (last c))"
  shows "trim (a @ c @ b) = c"
proof (cases "c = []")
  case True
  from assms(1,2) have "\<forall>x \<in> set (a @ b). isWhiteSpace x" by (auto simp: list_all_iff)
  then have d: "dropWhile isWhiteSpace (a @ b) = []" by (simp only: dropWhile_eq_Nil_conv)
  from True have "trim (a @ c @ b)
      = rev (dropWhile isWhiteSpace (rev (dropWhile isWhiteSpace (a @ b))))"
    by (simp only: trim_def append_Nil)
  also have "\<dots> = []" by (simp only: d rev.simps dropWhile.simps)
  finally show ?thesis using True by simp
next
  case False
  with assms(3) have h: "\<not> isWhiteSpace (hd c)" and l: "\<not> isWhiteSpace (last c)" by auto
  from assms(1) have "\<And>x. x \<in> set a \<Longrightarrow> isWhiteSpace x"
    by (simp add: list_all_iff)
  then have "dropWhile isWhiteSpace (a @ c @ b) = dropWhile isWhiteSpace (c @ b)"
    by (rule dropWhile_append2)
  also from False h have "\<dots> = c @ b" by (cases c) auto
  finally have front: "dropWhile isWhiteSpace (a @ c @ b) = c @ b" .
  from assms(2) have "\<And>x. x \<in> set (rev b) \<Longrightarrow> isWhiteSpace x"
    by (simp add: list_all_iff)
  then have "dropWhile isWhiteSpace (rev b @ rev c) = dropWhile isWhiteSpace (rev c)"
    by (rule dropWhile_append2)
  also from False l have "\<dots> = rev c" by (cases "rev c") (auto simp: hd_rev)
  finally have "dropWhile isWhiteSpace (rev (c @ b)) = rev c" by simp
  with front show ?thesis by (simp add: trim_def)
qed

section \<open>Properties of the array sort\<close>

lemma mset_insertSorted: "mset (insertSorted cmp x ys) = add_mset x (mset ys)"
  by (induction ys) auto

lemma mset_arraySort: "mset (arraySort cmp xs) = mset xs"
  unfolding arraySort_def by (induction xs) (auto simp: mset_insertSorted)

lemma set_insertSorted: "set (insertSorted cmp x ys) = insert x (set ys)"
  using mset_insertSorted[of cmp x ys] by (metis set_mset_add_mset_insert set_mset_mset)

lemma sorted_wrt_insertSorted:
  assumes tot: "\<And>a b. cmp a b \<le> 0 \<or> cmp b a \<le> 0"
    and tr: "\<And>a b c. cmp a b \<le> 0 \<Longrightarrow> cmp b c \<le> 0 \<Longrightarrow> cmp a c \<le> 0"
  shows "sorted_wrt (\<lambda>a b. cmp a b \<le> 0) ys \<Longrightarrow> sorted_wrt (\<lambda>a b. cmp a b \<le> 0) (insertSorted cmp x ys)"
proof (induction ys)
  case Nil
  then show ?case by simp
next
  case (Cons y ys)
  show ?case
  proof (cases "cmp x y \<le> 0")
    case True
    with Cons.prems tr show ?thesis by auto
  next
    case False
    with tot have "cmp y x \<le> 0" by blast
    with False Cons show ?thesis by (auto simp: set_insertSorted)
  qed
qed

lemma sorted_wrt_arraySort:
  assumes tot: "\<And>a b. cmp a b \<le> 0 \<or> cmp b a \<le> 0"
    and tr: "\<And>a b c. cmp a b \<le> 0 \<Longrightarrow> cmp b c \<le> 0 \<Longrightarrow> cmp a c \<le> 0"
  shows "sorted_wrt (\<lambda>a b. cmp a b \<le> 0) (arraySort cmp xs)"
  unfolding arraySort_def
  by (induction xs) (auto intro: sorted_wrt_insertSorted[OF tot tr])



lemma arraySort_sorted_id:
  "sorted_wrt (\<lambda>a b. cmp a b \<le> 0) xs \<Longrightarrow> arraySort cmp xs = xs"
proof (induction xs)
  case Nil
  then show ?case by (simp add: arraySort_def)
next
  case (Cons x xs)
  then have tl: "arraySort cmp xs = xs" by simp
  have "insertSorted cmp x xs = x # xs"
  proof (cases xs)
    case Nil
    then show ?thesis by simp
  next
    case (Cons y ys)
    with Cons.prems show ?thesis by simp
  qed
  with tl show ?case by (simp add: arraySort_def)
qed

section \<open>Properties of the chart aggregation\<close>

lemma distinct_countRow: "distinct (map fst counts) \<Longrightarrow> distinct (map fst (countRow field counts r))"
  by (simp add: countRow_def Let_def distinct_update)

lemma distinct_counts: "distinct (map fst acc) \<Longrightarrow> distinct (map fst (foldl (countRow field) acc rs))"
  by (induction rs arbitrary: acc) (auto simp: distinct_countRow)

lemma countGet_countRow:
  "countGet (countRow field counts r) v = countGet counts v + (if bucketLabel field r = v then 1 else 0)"
  by (simp add: countRow_def countGet_def Let_def update_conv')

lemma countGet_counts:
  "countGet (foldl (countRow field) acc rs) v
     = countGet acc v + length (filter (\<lambda>r. bucketLabel field r = v) rs)"
  by (induction rs arbitrary: acc) (auto simp: countGet_countRow)

lemma keys_countRow: "set (map fst (countRow field counts r)) = insert (bucketLabel field r) (set (map fst counts))"
  by (simp add: countRow_def Let_def dom_update)

lemma keys_counts:
  "set (map fst (foldl (countRow field) acc rs)) = set (map fst acc) \<union> bucketLabel field ` set rs"
proof (induction rs arbitrary: acc)
  case Nil
  then show ?case by simp
next
  case (Cons r rs)
  have "set (map fst (foldl (countRow field) (countRow field acc r) rs))
      = set (map fst (countRow field acc r)) \<union> bucketLabel field ` set rs"
    by (rule Cons.IH)
  then show ?case unfolding keys_countRow by auto
qed

lemma sum_update_bump:
  "distinct (map fst al) \<Longrightarrow>
   sum_list (map snd (AList.update k (Suc (countGet al k)) al)) = Suc (sum_list (map snd al))"
proof (induction al)
  case Nil
  then show ?case by (simp add: countGet_def)
next
  case (Cons p al)
  obtain k' n where p: "p = (k', n)" by (cases p)
  show ?case
  proof (cases "k' = k")
    case True
    then show ?thesis using p by (simp add: countGet_def)
  next
    case False
    then have "countGet (p # al) k = countGet al k" using p by (simp add: countGet_def)
    then show ?thesis using Cons p False by simp
  qed
qed

lemma sum_countRow:
  "distinct (map fst counts) \<Longrightarrow> sum_list (map snd (countRow field counts r)) = sum_list (map snd counts) + 1"
  by (simp add: countRow_def Let_def sum_update_bump)

lemma sum_counts:
  "distinct (map fst acc) \<Longrightarrow>
   sum_list (map snd (foldl (countRow field) acc rs)) = sum_list (map snd acc) + length rs"
  by (induction rs arbitrary: acc) (auto simp: sum_countRow distinct_countRow)

lemma entry_is_countGet:
  "distinct (map fst al) \<Longrightarrow> (v, n) \<in> set al \<Longrightarrow> countGet al v = n"
  by (simp add: countGet_def)

lemma counts_entries:
  assumes "(v, n) \<in> set (foldl (countRow field) [] rs)"
  shows "n = length (filter (\<lambda>r. bucketLabel field r = v) rs)"
proof -
  have "distinct (map fst (foldl (countRow field) [] rs))" by (simp add: distinct_counts)
  from entry_is_countGet[OF this assms]
  have "countGet (foldl (countRow field) [] rs) v = n" .
  moreover have "countGet [] v = 0" by (simp add: countGet_def)
  ultimately show ?thesis unfolding countGet_counts by simp
qed

lemma chart_entries:
  assumes "(v, n) \<in> set (buildFieldCountChartData ck rs field)"
  shows "n = length (filter (\<lambda>r. bucketLabel field r = v) rs)"
proof -
  have "set (buildFieldCountChartData ck rs field) = set (foldl (countRow field) [] rs)"
    unfolding buildFieldCountChartData_def using mset_arraySort by (metis set_mset_mset)
  with assms counts_entries show ?thesis by blast
qed

lemma chart_keys: "set (map fst (buildFieldCountChartData ck rs field)) = bucketLabel field ` set rs"
proof -
  have "mset (map fst (buildFieldCountChartData ck rs field)) = mset (map fst (foldl (countRow field) [] rs))"
    unfolding buildFieldCountChartData_def by (simp add: mset_arraySort)
  then have "set (map fst (buildFieldCountChartData ck rs field)) = set (map fst (foldl (countRow field) [] rs))"
    by (metis set_mset_mset)
  then show ?thesis unfolding keys_counts by simp
qed

lemma chart_distinct: "distinct (map fst (buildFieldCountChartData ck rs field))"
proof -
  have "mset (map fst (buildFieldCountChartData ck rs field)) = mset (map fst (foldl (countRow field) [] rs))"
    unfolding buildFieldCountChartData_def by (simp add: mset_arraySort)
  moreover have "distinct (map fst (foldl (countRow field) [] rs))" by (simp add: distinct_counts)
  ultimately show ?thesis by (metis mset_eq_imp_distinct_iff)
qed

lemma chart_sum: "sum_list (map snd (buildFieldCountChartData ck rs field)) = length rs"
proof -
  have "mset (map snd (buildFieldCountChartData ck rs field)) = mset (map snd (foldl (countRow field) [] rs))"
    unfolding buildFieldCountChartData_def by (simp add: mset_arraySort)
  then have "sum_list (map snd (buildFieldCountChartData ck rs field)) = sum_list (map snd (foldl (countRow field) [] rs))"
    by (metis sum_mset_sum_list)
  then show ?thesis by (simp add: sum_counts)
qed

lemma chart_as_map:
  "buildFieldCountChartData ck rs field =
     map (\<lambda>v. (v, length (filter (\<lambda>r. bucketLabel field r = v) rs))) (map fst (buildFieldCountChartData ck rs field))"
proof -
  have "\<And>p. p \<in> set (buildFieldCountChartData ck rs field) \<Longrightarrow>
      p = (fst p, length (filter (\<lambda>r. bucketLabel field r = fst p) rs))"
    using chart_entries by (metis prod.collapse)
  then have "map (\<lambda>p. (fst p, length (filter (\<lambda>r. bucketLabel field r = fst p) rs))) (buildFieldCountChartData ck rs field)
      = buildFieldCountChartData ck rs field"
    by (induction "buildFieldCountChartData ck rs field") (auto simp: map_idI)
  then show ?thesis by (simp add: comp_def)
qed

lemma compareBuckets_le:
  "compareBuckets ck a b \<le> 0 \<longleftrightarrow>
     snd b < snd a \<or> (snd a = snd b \<and> ck \<lparr>numeric = False, sensitivity = Base\<rparr> (fst a) \<le> ck \<lparr>numeric = False, sensitivity = Base\<rparr> (fst b))"
  by (auto simp: compareBuckets_def localeCompare_def)

lemma chart_sorted:
  "sorted_wrt (\<lambda>a b. snd b < snd a \<or> (snd a = snd b \<and> ck \<lparr>numeric = False, sensitivity = Base\<rparr> (fst a) \<le> ck \<lparr>numeric = False, sensitivity = Base\<rparr> (fst b)))
     (buildFieldCountChartData ck rs field)"
proof -
  have "sorted_wrt (\<lambda>a b. compareBuckets ck a b \<le> 0) (buildFieldCountChartData ck rs field)"
    unfolding buildFieldCountChartData_def
  proof (rule sorted_wrt_arraySort)
    show "\<And>a b. compareBuckets ck a b \<le> 0 \<or> compareBuckets ck b a \<le> 0"
      by (auto simp: compareBuckets_le)
    show "\<And>a b c. compareBuckets ck a b \<le> 0 \<Longrightarrow> compareBuckets ck b c \<le> 0 \<Longrightarrow> compareBuckets ck a c \<le> 0"
      by (auto simp: compareBuckets_le)
  qed
  then show ?thesis by (simp add: compareBuckets_le)
qed

lemma label_of_core:
  assumes "list_all isWhiteSpace a" and "list_all isWhiteSpace b" and "c \<noteq> []"
    and "\<not> isWhiteSpace (hd c)" and "\<not> isWhiteSpace (last c)" and "cell r field = a @ c @ b"
  shows "bucketLabel field r = c"
proof -
  from assms have "trim (cell r field) = c" by (simp add: trim_spec)
  with assms(3) show ?thesis by (simp add: bucketLabel_def Let_def)
qed

lemma label_of_blank:
  assumes "list_all isWhiteSpace (cell r field)"
  shows "bucketLabel field r = ''(Empty)''"
proof -
  from assms have "trim ([] @ [] @ cell r field) = []" by (intro trim_spec) simp_all
  then show ?thesis by (simp add: bucketLabel_def Let_def)
qed

text \<open>
  Claim C9. The chart aggregation labels a row by the value of the field without the
  white space around it: a value that is white space, a core that neither starts nor ends
  with white space, and white space again has the core as its label, so \<^verbatim>\<open>ok\<close> with and
  without blanks around it is one bucket; a value of white space only, an empty value and
  a row without the field have the label \<^verbatim>\<open>(Empty)\<close>. The aggregation returns one bucket
  for every label that occurs, with the number of rows of that label, ordered by falling
  count and, among equal counts, by rising collation key of the label (the collation of
  sensitivity \<^verbatim>\<open>base\<close>, which ignores case). The rows \<^verbatim>\<open>ok\<close>, \<^verbatim>\<open>ok\<close> and the empty value
  give \<^verbatim>\<open>ok\<close> twice and \<^verbatim>\<open>(Empty)\<close> once.
\<close>

theorem chart_buckets_counted_and_ordered:
  "(list_all isWhiteSpace a \<and> list_all isWhiteSpace b \<and> c \<noteq> []
      \<and> \<not> isWhiteSpace (hd c) \<and> \<not> isWhiteSpace (last c) \<and> cell r field = a @ c @ b
      \<longrightarrow> bucketLabel field r = c)
   \<and> (list_all isWhiteSpace (cell r field) \<longrightarrow> bucketLabel field r = ''(Empty)'')
   \<and> (map_of r field = None \<longrightarrow> bucketLabel field r = ''(Empty)'')
   \<and> set (map fst (buildFieldCountChartData ck rs field)) = bucketLabel field ` set rs
   \<and> buildFieldCountChartData ck rs field =
       map (\<lambda>v. (v, length (filter (\<lambda>r. bucketLabel field r = v) rs)))
         (map fst (buildFieldCountChartData ck rs field))
   \<and> sorted_wrt
       (\<lambda>a b. snd b < snd a \<or>
          (snd a = snd b \<and>
           ck \<lparr>numeric = False, sensitivity = Base\<rparr> (fst a)
             \<le> ck \<lparr>numeric = False, sensitivity = Base\<rparr> (fst b)))
       (buildFieldCountChartData ck rs field)
   \<and> buildFieldCountChartData ck
        [[(''status'', ''ok'')], [(''status'', ''ok'')], [(''status'', [])]] ''status''
       = [(''ok'', 2), (''(Empty)'', 1)]
   \<and> buildFieldCountChartData ck
        [[(''status'', [CHR 0x09])], [(''status'', '' ok '')], [(''status'', ''ok'')],
         [(''other'', ''ok'')], [(''status'', ''ok'' @ [CHR 0x0A])]] ''status''
       = [(''ok'', 3), (''(Empty)'', 2)]"
proof -
  have core: "list_all isWhiteSpace a \<and> list_all isWhiteSpace b \<and> c \<noteq> []
      \<and> \<not> isWhiteSpace (hd c) \<and> \<not> isWhiteSpace (last c) \<and> cell r field = a @ c @ b
      \<longrightarrow> bucketLabel field r = c"
    using label_of_core[of a b c r field] by blast
  have blank: "list_all isWhiteSpace (cell r field) \<longrightarrow> bucketLabel field r = ''(Empty)''"
    using label_of_blank[of r field] by blast
  have missing: "map_of r field = None \<longrightarrow> bucketLabel field r = ''(Empty)''"
    by (simp add: bucketLabel_def cell_def trim_Nil)
  have example: "buildFieldCountChartData ck
        [[(''status'', ''ok'')], [(''status'', ''ok'')], [(''status'', [])]] ''status''
       = [(''ok'', 2), (''(Empty)'', 1)]"
    by (simp add: buildFieldCountChartData_def countRow_def bucketLabel_def cell_def trim_def
        isWhiteSpace_def countGet_def arraySort_def compareBuckets_def)
  have example2: "buildFieldCountChartData ck
        [[(''status'', [CHR 0x09])], [(''status'', '' ok '')], [(''status'', ''ok'')],
         [(''other'', ''ok'')], [(''status'', ''ok'' @ [CHR 0x0A])]] ''status''
       = [(''ok'', 3), (''(Empty)'', 2)]"
    by (simp add: buildFieldCountChartData_def countRow_def bucketLabel_def cell_def trim_def
        isWhiteSpace_def countGet_def arraySort_def compareBuckets_def)
  from core blank missing chart_keys[of ck rs field] chart_as_map[of ck rs field]
    chart_sorted[of ck rs field] example example2
  show ?thesis by blast
qed

theorem chart_buckets_counted_and_ordered_witness:
  "list_all isWhiteSpace ([CHR 0x09] @ '' '') \<and> list_all isWhiteSpace ''  ''
   \<and> \<not> isWhiteSpace (hd ''in progress'') \<and> \<not> isWhiteSpace (last ''in progress'')
   \<and> cell [(''status'', [CHR 0x09] @ '' in progress  '')] ''status''
       = ([CHR 0x09] @ '' '') @ ''in progress'' @ ''  ''
   \<and> bucketLabel ''status'' [(''status'', [CHR 0x09] @ '' in progress  '')] = ''in progress''
   \<and> list_all isWhiteSpace (cell [(''status'', [CHR 0x0D, CHR 0x0A])] ''status'')
   \<and> bucketLabel ''status'' [(''status'', [CHR 0x0D, CHR 0x0A])] = ''(Empty)''
   \<and> map_of [(''state'', ''ok'')] ''status'' = None
   \<and> bucketLabel ''status'' [(''state'', ''ok'')] = ''(Empty)''"
proof -
  have h: "list_all isWhiteSpace ([CHR 0x09] @ '' '')" "list_all isWhiteSpace ''  ''"
    "''in progress'' \<noteq> []"
    "\<not> isWhiteSpace (hd ''in progress'')" "\<not> isWhiteSpace (last ''in progress'')"
    "cell [(''status'', [CHR 0x09] @ '' in progress  '')] ''status''
       = ([CHR 0x09] @ '' '') @ ''in progress'' @ ''  ''"
    "list_all isWhiteSpace (cell [(''status'', [CHR 0x0D, CHR 0x0A])] ''status'')"
    "map_of [(''state'', ''ok'')] ''status'' = None"
    by (simp_all add: isWhiteSpace_def cell_def)
  note T1 = chart_buckets_counted_and_ordered[where a = "[CHR 0x09] @ '' ''" and b = "''  ''"
      and c = "''in progress''" and r = "[(''status'', [CHR 0x09] @ '' in progress  '')]"
      and field = "''status''" and rs = "[]" and ck = asciiCollationKey]
  note T2 = chart_buckets_counted_and_ordered[where a = "[]" and b = "[]"
      and c = "''x''" and r = "[(''status'', [CHR 0x0D, CHR 0x0A])]"
      and field = "''status''" and rs = "[]" and ck = asciiCollationKey]
  note T3 = chart_buckets_counted_and_ordered[where a = "[]" and b = "[]"
      and c = "''x''" and r = "[(''state'', ''ok'')]"
      and field = "''status''" and rs = "[]" and ck = asciiCollationKey]
  from T1 h have l1: "bucketLabel ''status'' [(''status'', [CHR 0x09] @ '' in progress  '')]
      = ''in progress''"
    by blast
  from T2 h have l2: "bucketLabel ''status'' [(''status'', [CHR 0x0D, CHR 0x0A])] = ''(Empty)''"
    by blast
  from T3 h have l3: "bucketLabel ''status'' [(''state'', ''ok'')] = ''(Empty)''"
    by blast
  from h l1 l2 l3 show ?thesis by blast
qed

text \<open>
  Claim C10. The buckets partition the rows: their labels are pairwise distinct, every
  bucket counts at least one row, and the counts add up to the number of rows.
\<close>

theorem chart_buckets_partition_rows:
  "distinct (map fst (buildFieldCountChartData ck rs field))
   \<and> list_all (\<lambda>b. 1 \<le> snd b) (buildFieldCountChartData ck rs field)
   \<and> sum_list (map snd (buildFieldCountChartData ck rs field)) = length rs"
proof -
  have "1 \<le> snd b" if b: "b \<in> set (buildFieldCountChartData ck rs field)" for b
  proof -
    obtain v n where vn: "b = (v, n)" by (cases b)
    with b have "v \<in> set (map fst (buildFieldCountChartData ck rs field))" by force
    then have "v \<in> bucketLabel field ` set rs" unfolding chart_keys .
    then obtain r where r: "r \<in> set rs" "bucketLabel field r = v" by blast
    then have "filter (\<lambda>r. bucketLabel field r = v) rs \<noteq> []"
      by (auto simp: filter_empty_conv)
    moreover have "n = length (filter (\<lambda>r. bucketLabel field r = v) rs)"
      using chart_entries b vn by blast
    ultimately show ?thesis using vn by (cases "filter (\<lambda>r. bucketLabel field r = v) rs") auto
  qed
  then have "list_all (\<lambda>b. 1 \<le> snd b) (buildFieldCountChartData ck rs field)"
    by (simp add: list_all_iff)
  with chart_distinct[of ck rs field] chart_sum[of ck rs field] show ?thesis by blast
qed

section \<open>Key paths and the values that are sorted\<close>

text \<open>
  Where the engine finds a value at a key path, \<^verbatim>\<open>sortBy\<close> reads the same value; a record
  that matches a filter has a string as its key in the index of the filter field.
\<close>

lemma keyPath_loop_None:
  "foldl (\<lambda>acc identifier. case acc of None \<Rightarrow> None | Some x \<Rightarrow> keyPathStep x identifier) None ps
     = None"
  by (induction ps) auto

lemma keyPathStep_getProperty: "keyPathStep v p = Some w \<Longrightarrow> getProperty v p = Inr w"
  by (cases v) (auto split: option.splits if_splits)

lemma keyPath_loop_getval:
  assumes "foldl (\<lambda>acc identifier. case acc of None \<Rightarrow> None | Some x \<Rightarrow> keyPathStep x identifier)
             (Some x) ps = Some w"
  shows "foldl (\<lambda>acc part. case acc of Inl e \<Rightarrow> Inl e | Inr x \<Rightarrow> getProperty x part) (Inr x) ps
           = Inr w"
  using assms
proof (induction ps arbitrary: x)
  case Nil
  then show ?case by simp
next
  case (Cons p ps)
  show ?case
  proof (cases "keyPathStep x p")
    case None
    with Cons.prems show ?thesis by (simp add: keyPath_loop_None)
  next
    case (Some y)
    with Cons.prems have "foldl (\<lambda>acc identifier. case acc of None \<Rightarrow> None
        | Some x \<Rightarrow> keyPathStep x identifier) (Some y) ps = Some w"
      by simp
    from Cons.IH[OF this] keyPathStep_getProperty[OF Some] show ?thesis by simp
  qed
qed

lemma evaluateKeyPath_getval:
  assumes "f \<noteq> []" and "evaluateKeyPath f v = Some w"
  shows "getval f v = Inr w"
  using assms keyPath_loop_getval[of v "splitDots f" w]
  by (simp add: evaluateKeyPath_def getval_def)

lemma toKey_string: "toKey v = Some (1, n, s) \<Longrightarrow> v = JStr s \<and> n = 0"
  by (cases v) auto

lemma matchesIgnoreCase_iff:
  "matchesIgnoreCase field needle obj \<longleftrightarrow>
     (\<exists>s w. evaluateKeyPath field (JObj obj) = Some (JStr s)
        \<and> toLowerCase s = toLowerCase needle @ w)"
  by (auto simp: matchesIgnoreCase_def startsWith_iff split: option.splits jsval.splits)

lemma matches_string_key:
  assumes "matchesIgnoreCase field needle obj"
  shows "\<exists>s. evaluateKeyPath field (JObj obj) = Some (JStr s) \<and> keyAt field obj = Some (1, 0, s)"
  using assms by (auto simp: matchesIgnoreCase_iff keyAt_def)

lemma matches_has_key: "matchesIgnoreCase field needle obj \<Longrightarrow> keyAt field obj \<noteq> None"
  using matches_string_key by fastforce

lemma matches_valueAt:
  assumes "field \<noteq> []" and "matchesIgnoreCase field needle obj"
  shows "\<exists>s. getval field (JObj obj) = Inr (JStr s) \<and> valueAt field obj = JStr s
           \<and> keyAt field obj = Some (1, 0, s)"
proof -
  from matches_string_key[OF assms(2)] obtain s
    where s: "evaluateKeyPath field (JObj obj) = Some (JStr s)" "keyAt field obj = Some (1, 0, s)"
    by blast
  from evaluateKeyPath_getval[OF assms(1) s(1)] have "getval field (JObj obj) = Inr (JStr s)" .
  with s(2) show ?thesis by (simp add: valueAt_def)
qed

lemma cmpValues_strings: "cmpValues (JStr s) (JStr t) \<le> 0 \<longleftrightarrow> s \<le> t"
  by (auto simp: cmpValues_def)

lemma string_keys_le: "(Some (1 :: nat, 0 :: int, s) \<le> Some (1, 0, t)) = (s \<le> (t :: string))"
  by auto

section \<open>The combined strategy and the two steps\<close>

lemma indexRecords_sorted: "sorted (map (keyAt field) (indexRecords table field))"
  by (simp add: indexRecords_def)

lemma found_sorted:
  assumes "field \<noteq> []"
  shows "sorted_wrt (\<lambda>a b. cmpValues (valueAt field a) (valueAt field b) \<le> 0)
     (filter (matchesIgnoreCase field needle) (indexRecords table field))"
proof -
  let ?found = "filter (matchesIgnoreCase field needle) (indexRecords table field)"
  have "sorted (map (keyAt field) ?found)"
    using indexRecords_sorted by (rule sorted_filter)
  then have s: "sorted_wrt (\<lambda>a b. keyAt field a \<le> keyAt field b) ?found"
    by (simp add: sorted_map)
  have "cmpValues (valueAt field a) (valueAt field b) \<le> 0"
    if "a \<in> set ?found" "b \<in> set ?found" "keyAt field a \<le> keyAt field b" for a b
  proof -
    from that(1) matches_valueAt[OF assms, of needle a] obtain s
      where a: "valueAt field a = JStr s" "keyAt field a = Some (1, 0, s)" by auto
    from that(2) matches_valueAt[OF assms, of needle b] obtain t
      where b: "valueAt field b = JStr t" "keyAt field b = Some (1, 0, t)" by auto
    from that(3) a b have "s \<le> t" by (simp only: string_keys_le)
    with a b show ?thesis by (simp add: cmpValues_strings)
  qed
  with s show ?thesis by (rule sorted_wrt_mono_rel[rotated])
qed

lemma sortBy_found:
  assumes "field \<noteq> []"
  shows "sortBy field (filter (matchesIgnoreCase field needle) (indexRecords table field))
     = Inr (filter (matchesIgnoreCase field needle) (indexRecords table field))"
proof -
  let ?found = "filter (matchesIgnoreCase field needle) (indexRecords table field)"
  have "\<not> isl (getval field (JObj obj))" if "obj \<in> set ?found" for obj
    using that matches_valueAt[OF assms, of needle obj] by auto
  then have ok: "\<not> list_ex (\<lambda>obj. isl (getval field (JObj obj))) ?found"
    by (simp add: list_ex_iff)
  have "arraySort (\<lambda>a b. cmpValues (valueAt field a) (valueAt field b)) ?found = ?found"
    by (rule arraySort_sorted_id) (rule found_sorted[OF assms])
  with ok show ?thesis by (simp add: sortBy_def)
qed

lemma slice_offsetLimit: "slice xs offset (offset + limit) = offsetLimit offset limit xs"
  by (simp add: slice_def offsetLimit_def)

lemma combined_is_filterThenSort:
  assumes "f \<noteq> []"
  shows "combinedStrategy table f needle isDesc offset limit
     = filterThenSortStrategy table f f needle isDesc offset limit"
  by (simp add: combinedStrategy_def filterThenSortStrategy_def whereStartsWithIgnoreCase_def
      sortBy_found[OF assms] slice_offsetLimit Let_def)

lemma retrieveRows_twoSteps: "retrieveRows table params = retrieveRowsInTwoSteps table params"
proof (cases "truthy (filterField params) \<and> trim (orEmpty (filterValue params)) \<noteq> []
    \<and> truthy (sortField params) \<and> orEmpty (filterField params) = orEmpty (sortField params)")
  case True
  then have ne: "orEmpty (filterField params) \<noteq> []" "orEmpty (sortField params) \<noteq> []"
    by (cases "filterField params"; cases "sortField params"; simp)+
  with True show ?thesis
    by (simp add: retrieveRows_def retrieveRowsInTwoSteps_def Let_def combined_is_filterThenSort)
next
  case False
  then show ?thesis
    by (auto simp add: retrieveRows_def retrieveRowsInTwoSteps_def Let_def)
qed

text \<open>
  Claim C1. For a request that filters and sorts on one field \<open>f\<close>, with a filter value
  that is not empty after trimming, the query of the index-backed service takes the
  combined strategy, the reference takes the filter step followed by the sort step, and
  the two give the same outcome: the same rows in the same order, the same total, the
  same page, or the same rejection. (The cache-backed service has no combined strategy:
  it always filters, then sorts.)
\<close>

theorem combined_strategy_equals_two_steps:
  assumes "filterField params = Some f" and "sortField params = Some f" and "f \<noteq> []"
    and "trim (orEmpty (filterValue params)) \<noteq> []"
  shows "retrieveRows table params =
           combinedStrategy table f (trim (orEmpty (filterValue params)))
             (sortDirection params = Some desc)
             (nat ((max (page params) 1 - 1) * max (pageSize params) 1))
             (nat (max (pageSize params) 1))
         \<and> retrieveRowsInTwoSteps table params =
           filterThenSortStrategy table f f (trim (orEmpty (filterValue params)))
             (sortDirection params = Some desc)
             (nat ((max (page params) 1 - 1) * max (pageSize params) 1))
             (nat (max (pageSize params) 1))
         \<and> retrieveRows table params = retrieveRowsInTwoSteps table params
         \<and> queryProjectRows_dexie db projectId params
             = queryProjectRows_twoSteps db projectId params"
proof -
  have "retrieveRows = retrieveRowsInTwoSteps"
    by (intro ext) (rule retrieveRows_twoSteps)
  then have "queryProjectRows_dexie db projectId params
      = queryProjectRows_twoSteps db projectId params"
    by (simp add: queryProjectRows_dexie_def queryProjectRows_twoSteps_def)
  with assms retrieveRows_twoSteps[of table params] show ?thesis
    by (simp add: retrieveRows_def retrieveRowsInTwoSteps_def Let_def)
qed

theorem combined_strategy_equals_two_steps_witness:
  "filterField (exampleParams\<lparr>filterField := Some ''name'', filterValue := Some '' an '',
       sortField := Some ''name'', sortDirection := Some desc\<rparr>) = Some ''name''
   \<and> sortField (exampleParams\<lparr>filterField := Some ''name'', filterValue := Some '' an '',
       sortField := Some ''name'', sortDirection := Some desc\<rparr>) = Some ''name''
   \<and> trim (orEmpty (filterValue (exampleParams\<lparr>filterField := Some ''name'',
       filterValue := Some '' an '', sortField := Some ''name'', sortDirection := Some desc\<rparr>))) = ''an''
   \<and> queryProjectRows_twoSteps exampleDb ''p1''
        (exampleParams\<lparr>filterField := Some ''name'', filterValue := Some '' an '',
           sortField := Some ''name'', sortDirection := Some desc\<rparr>)
       = queryProjectRows_dexie exampleDb ''p1''
        (exampleParams\<lparr>filterField := Some ''name'', filterValue := Some '' an '',
           sortField := Some ''name'', sortDirection := Some desc\<rparr>)
   \<and> map_sum id rows (queryProjectRows_dexie exampleDb ''p1''
        (exampleParams\<lparr>filterField := Some ''name'', filterValue := Some '' an '',
           sortField := Some ''name'', sortDirection := Some desc\<rparr>))
       = Inr [[(''name'', ''ann''), (''age'', ''25'')],
              [(''name'', ''Ann''), (''age'', ''10'')],
              [(''name'', ''Ann''), (''age'', ''7'')]]"
proof -
  let ?q = "exampleParams\<lparr>filterField := Some ''name'', filterValue := Some '' an '',
       sortField := Some ''name'', sortDirection := Some desc\<rparr>"
  have h1: "filterField ?q = Some ''name''" by simp
  have h2: "sortField ?q = Some ''name''" by simp
  have h3: "''name'' \<noteq> []" by simp
  have h4: "trim (orEmpty (filterValue ?q)) = ''an''" by (simp add: trim_def isWhiteSpace_def)
  then have h4': "trim (orEmpty (filterValue ?q)) \<noteq> []" by simp
  have run: "map_sum id rows (queryProjectRows_dexie exampleDb ''p1'' ?q)
       = Inr [[(''name'', ''ann''), (''age'', ''25'')],
              [(''name'', ''Ann''), (''age'', ''10'')],
              [(''name'', ''Ann''), (''age'', ''7'')]]"
    by code_simp
  from combined_strategy_equals_two_steps[OF h1 h2 h3 h4', of exampleStore exampleDb "''p1''"]
  have "queryProjectRows_dexie exampleDb ''p1'' ?q = queryProjectRows_twoSteps exampleDb ''p1'' ?q"
    by blast
  with h1 h2 h4 run show ?thesis by metis
qed

section \<open>Matching and totals\<close>

lemma length_filter_mset: "mset xs = mset ys \<Longrightarrow> length (filter P xs) = length (filter P ys)"
  by (metis mset_filter size_mset)

lemma mset_indexRecords:
  "mset (indexRecords table field) = mset (filter (\<lambda>obj. keyAt field obj \<noteq> None) (records table))"
  by (simp add: indexRecords_def)

lemma length_indexRecords: "length (indexRecords table field) \<le> length (records table)"
proof -
  have "length (indexRecords table field)
      = length (filter (\<lambda>obj. keyAt field obj \<noteq> None) (records table))"
    using mset_indexRecords by (metis size_mset)
  then show ?thesis by simp
qed

lemma length_found:
  "length (filter (matchesIgnoreCase field needle) (indexRecords table field))
     = length (filter (matchesIgnoreCase field needle) (records table))"
proof -
  have "length (filter (matchesIgnoreCase field needle) (indexRecords table field))
      = length (filter (matchesIgnoreCase field needle)
          (filter (\<lambda>obj. keyAt field obj \<noteq> None) (records table)))"
    by (rule length_filter_mset) (rule mset_indexRecords)
  also have "filter (matchesIgnoreCase field needle)
          (filter (\<lambda>obj. keyAt field obj \<noteq> None) (records table))
      = filter (\<lambda>obj. keyAt field obj \<noteq> None \<and> matchesIgnoreCase field needle obj) (records table)"
    by simp
  also have "\<dots> = filter (matchesIgnoreCase field needle) (records table)"
    by (rule filter_cong) (auto dest: matches_has_key)
  finally show ?thesis .
qed

text \<open>The page of a sequence for a requested page and page size.\<close>

lemma toDisplayRows_page:
  "toDisplayRows (take n (drop k xs)) = take n (drop k (toDisplayRows xs))"
  by (simp add: toDisplayRows_def take_map drop_map)

lemma length_toDisplayRows: "length (toDisplayRows xs) = length xs"
  by (simp add: toDisplayRows_def)

lemma strategy_pages:
  "combinedStrategy table ff needle isDesc offset limit =
     (case whereStartsWithIgnoreCase table ff needle of
        Inl e \<Rightarrow> Inl e
      | Inr found \<Rightarrow>
          Inr (length found,
               take limit (drop offset (toDisplayRows (if isDesc then rev found else found)))))"
  "filterThenSortStrategy table ff sf needle isDesc offset limit =
     (case whereStartsWithIgnoreCase table ff needle of
        Inl e \<Rightarrow> Inl e
      | Inr found \<Rightarrow>
          (case sortBy sf found of
             Inl e \<Rightarrow> Inl e
           | Inr sortedRows \<Rightarrow>
               Inr (length found,
                    take limit (drop offset
                      (toDisplayRows (if isDesc then rev sortedRows else sortedRows))))))"
  "filterStrategy table ff needle offset limit =
     (case whereStartsWithIgnoreCase table ff needle of
        Inl e \<Rightarrow> Inl e
      | Inr found \<Rightarrow> Inr (length found, take limit (drop offset (toDisplayRows found))))"
  "sortStrategy table sf isDesc offset limit =
     (case orderBy table sf of
        Inl e \<Rightarrow> Inl e
      | Inr ordered \<Rightarrow>
          Inr (length (records table),
               take limit (drop offset (toDisplayRows (if isDesc then rev ordered else ordered)))))"
  "scanStrategy table offset limit =
     Inr (length (records table), take limit (drop offset (toDisplayRows (records table))))"
  by (auto simp: combinedStrategy_def filterThenSortStrategy_def filterStrategy_def
      sortStrategy_def scanStrategy_def offsetLimit_def slice_def toDisplayRows_page Let_def
      split: sum.splits)

lemma mset_sortBy: "sortBy sf xs = Inr ys \<Longrightarrow> mset ys = mset xs"
  by (auto simp: sortBy_def mset_arraySort split: if_splits)

lemma length_sortBy: "sortBy sf xs = Inr ys \<Longrightarrow> length ys = length xs"
  using mset_sortBy by (metis size_mset)

text \<open>The branch that the chain of conditions takes.\<close>

lemma retrieveRows_combined:
  assumes "orEmpty (filterField params) \<noteq> []" and "trim (orEmpty (filterValue params)) \<noteq> []"
    and "orEmpty (filterField params) = orEmpty (sortField params)"
  shows "retrieveRows table params =
     combinedStrategy table (orEmpty (filterField params)) (trim (orEmpty (filterValue params)))
       (sortDirection params = Some desc)
       (nat ((max (page params) 1 - 1) * max (pageSize params) 1)) (nat (max (pageSize params) 1))"
  using assms by (simp add: retrieveRows_def Let_def truthy_orEmpty)

lemma retrieveRows_filterThenSort:
  assumes "orEmpty (filterField params) \<noteq> []" and "trim (orEmpty (filterValue params)) \<noteq> []"
    and "orEmpty (sortField params) \<noteq> []"
    and "orEmpty (filterField params) \<noteq> orEmpty (sortField params)"
  shows "retrieveRows table params =
     filterThenSortStrategy table (orEmpty (filterField params)) (orEmpty (sortField params))
       (trim (orEmpty (filterValue params))) (sortDirection params = Some desc)
       (nat ((max (page params) 1 - 1) * max (pageSize params) 1)) (nat (max (pageSize params) 1))"
  using assms by (simp add: retrieveRows_def Let_def truthy_orEmpty)

lemma retrieveRows_filter:
  assumes "orEmpty (filterField params) \<noteq> []" and "trim (orEmpty (filterValue params)) \<noteq> []"
    and "orEmpty (sortField params) = []"
  shows "retrieveRows table params =
     filterStrategy table (orEmpty (filterField params)) (trim (orEmpty (filterValue params)))
       (nat ((max (page params) 1 - 1) * max (pageSize params) 1)) (nat (max (pageSize params) 1))"
  using assms by (simp add: retrieveRows_def Let_def truthy_orEmpty)

lemma retrieveRows_sort:
  assumes "orEmpty (filterField params) = [] \<or> trim (orEmpty (filterValue params)) = []"
    and "orEmpty (sortField params) \<noteq> []"
  shows "retrieveRows table params =
     sortStrategy table (orEmpty (sortField params)) (sortDirection params = Some desc)
       (nat ((max (page params) 1 - 1) * max (pageSize params) 1)) (nat (max (pageSize params) 1))"
  using assms by (auto simp add: retrieveRows_def Let_def truthy_orEmpty)

lemma retrieveRows_scan:
  assumes "orEmpty (filterField params) = [] \<or> trim (orEmpty (filterValue params)) = []"
    and "orEmpty (sortField params) = []"
  shows "retrieveRows table params =
     scanStrategy table
       (nat ((max (page params) 1 - 1) * max (pageSize params) 1)) (nat (max (pageSize params) 1))"
  using assms by (auto simp add: retrieveRows_def Let_def truthy_orEmpty)

lemma length_sortRows: "length (sortRows ck rs field direction) = length rs"
  unfolding sortRows_def Let_def using mset_arraySort by (metis size_mset)

lemma length_processedRows: "length (processedRows ck params rs) = length (filterRows params rs)"
  by (simp add: processedRows_def length_sortRows)

lemma filterRows_page [simp]:
  "filterRows (params\<lparr>page := a, pageSize := b\<rparr>) rs = filterRows params rs"
  by (simp add: filterRows_def Let_def)

lemma processedRows_page [simp]:
  "processedRows ck (params\<lparr>page := a, pageSize := b\<rparr>) rs = processedRows ck params rs"
  by (simp add: processedRows_def)

lemma query_cache_total:
  "total (fst (queryProjectRows_cache ck projectId params st))
     = length (filterRows params (cachedRows (fst (cachedOrLoaded projectId st))))"
  by (simp add: queryProjectRows_cache_def Let_def length_processedRows)

lemma query_cache_rows:
  "rows (fst (queryProjectRows_cache ck projectId params st))
     = take (nat (max (pageSize params) 1))
         (drop (nat ((max (page params) 1 - 1) * max (pageSize params) 1))
           (processedRows ck params (cachedRows (fst (cachedOrLoaded projectId st)))))"
  by (simp add: queryProjectRows_cache_def Let_def slice_def)

lemma query_dexie_Inr:
  assumes "queryProjectRows_dexie db projectId params = Inr res"
  shows "(objectStores db projectId = None \<and>
            res = \<lparr>rows = [], fieldList = [], total = 0,
                   sql = buildSqlLikeQuery_dexie projectId params\<rparr>)
         \<or> (\<exists>table. objectStores db projectId = Some table \<and>
              retrieveRows table params = Inr (total res, rows res) \<and>
              fieldList res = firstRowKeys (rows res) \<and>
              sql res = buildSqlLikeQuery_dexie projectId params)"
  using assms
  by (auto simp: queryProjectRows_dexie_def queryWith_def hasProjectStore_def
      split: option.splits sum.splits prod.splits if_splits)

lemma query_dexie_of_retrieve:
  assumes "objectStores db projectId = Some table" and "retrieveRows table params = Inr (n, rs)"
  shows "queryProjectRows_dexie db projectId params
     = Inr \<lparr>rows = rs, fieldList = firstRowKeys rs, total = n,
            sql = buildSqlLikeQuery_dexie projectId params\<rparr>"
  using assms by (simp add: queryProjectRows_dexie_def queryWith_def hasProjectStore_def)

lemma query_dexie_no_store:
  assumes "objectStores db projectId = None"
  shows "queryProjectRows_dexie db projectId params
     = Inr \<lparr>rows = [], fieldList = [], total = 0, sql = buildSqlLikeQuery_dexie projectId params\<rparr>"
  using assms by (simp add: queryProjectRows_dexie_def queryWith_def hasProjectStore_def)

lemma where_Inr:
  "whereStartsWithIgnoreCase table ff v = Inr found \<Longrightarrow>
     found = filter (matchesIgnoreCase ff v) (indexRecords table ff)"
  by (auto simp: whereStartsWithIgnoreCase_def split: if_splits)

lemma retrieveRows_total:
  assumes "retrieveRows table params = Inr (n, rs)"
  shows "n = (if truthy (filterField params) \<and> trim (orEmpty (filterValue params)) \<noteq> []
              then length (filter (matchesIgnoreCase (orEmpty (filterField params))
                     (trim (orEmpty (filterValue params)))) (records table))
              else length (records table))"
proof -
  let ?v = "trim (orEmpty (filterValue params))"
  let ?ff = "orEmpty (filterField params)"
  let ?sf = "orEmpty (sortField params)"
  consider (combined) "?ff \<noteq> []" "?v \<noteq> []" "?ff = ?sf"
    | (two) "?ff \<noteq> []" "?v \<noteq> []" "?sf \<noteq> []" "?ff \<noteq> ?sf"
    | (filt) "?ff \<noteq> []" "?v \<noteq> []" "?sf = []"
    | (srt) "?ff = [] \<or> ?v = []" "?sf \<noteq> []"
    | (scan) "?ff = [] \<or> ?v = []" "?sf = []"
    by blast
  then show ?thesis
  proof cases
    case combined
    with assms retrieveRows_combined[of params table] show ?thesis
      by (auto simp: strategy_pages truthy_orEmpty length_found dest!: where_Inr split: sum.splits)
  next
    case two
    with assms retrieveRows_filterThenSort[of params table] show ?thesis
      by (auto simp: strategy_pages truthy_orEmpty length_found dest!: where_Inr split: sum.splits)
  next
    case filt
    with assms retrieveRows_filter[of params table] show ?thesis
      by (auto simp: strategy_pages truthy_orEmpty length_found dest!: where_Inr split: sum.splits)
  next
    case srt
    with assms retrieveRows_sort[of params table] show ?thesis
      by (auto simp: strategy_pages truthy_orEmpty split: sum.splits)
  next
    case scan
    with assms retrieveRows_scan[of params table] show ?thesis
      by (auto simp: strategy_pages truthy_orEmpty split: sum.splits)
  qed
qed

text \<open>
  What holds of the totals. In the cache-backed service the total is the number of rows
  of the cache entry whose lower-case value of the filter field contains the lower-case
  filter text, the number of all its rows when no filter applies, and the same for every
  page and page size. In the index-backed service the total of a query that returns is
  the number of records for which the engine finds, at the filter field read as a key
  path, a string whose lower-case form starts with the lower-case filter text, and the
  number of all records when no filter applies.
\<close>

lemma totals_of_queries:
  "total (fst (queryProjectRows_cache ck projectId params st)) =
     (if truthy (filterField params) \<and> trim (orEmpty (filterValue params)) \<noteq> []
      then length
             (filter
                (\<lambda>r. \<exists>u w. toLocaleLowerCase (cell r (orEmpty (filterField params)))
                          = u @ toLocaleLowerCase (trim (orEmpty (filterValue params))) @ w)
                (cachedRows (fst (cachedOrLoaded projectId st))))
      else length (cachedRows (fst (cachedOrLoaded projectId st))))"
  "total (fst (queryProjectRows_cache ck projectId (params\<lparr>page := a, pageSize := b\<rparr>) st))
     = total (fst (queryProjectRows_cache ck projectId params st))"
  "objectStores db projectId = Some table \<Longrightarrow>
   queryProjectRows_dexie db projectId params = Inr res \<Longrightarrow>
   total res =
     (if truthy (filterField params) \<and> trim (orEmpty (filterValue params)) \<noteq> []
      then length
             (filter
                (\<lambda>obj. \<exists>s w. evaluateKeyPath (orEmpty (filterField params)) (JObj obj)
                            = Some (JStr s)
                          \<and> toLowerCase s = toLowerCase (trim (orEmpty (filterValue params))) @ w)
                (records table))
      else length (records table))"
proof -
  show "total (fst (queryProjectRows_cache ck projectId params st)) =
     (if truthy (filterField params) \<and> trim (orEmpty (filterValue params)) \<noteq> []
      then length
             (filter
                (\<lambda>r. \<exists>u w. toLocaleLowerCase (cell r (orEmpty (filterField params)))
                          = u @ toLocaleLowerCase (trim (orEmpty (filterValue params))) @ w)
                (cachedRows (fst (cachedOrLoaded projectId st))))
      else length (cachedRows (fst (cachedOrLoaded projectId st))))"
    by (simp add: query_cache_total filterRows_def Let_def includes_str_iff)
  show "total (fst (queryProjectRows_cache ck projectId (params\<lparr>page := a, pageSize := b\<rparr>) st))
     = total (fst (queryProjectRows_cache ck projectId params st))"
    by (simp add: query_cache_total)
  show "total res =
     (if truthy (filterField params) \<and> trim (orEmpty (filterValue params)) \<noteq> []
      then length
             (filter
                (\<lambda>obj. \<exists>s w. evaluateKeyPath (orEmpty (filterField params)) (JObj obj)
                            = Some (JStr s)
                          \<and> toLowerCase s = toLowerCase (trim (orEmpty (filterValue params))) @ w)
                (records table))
      else length (records table))"
    if t: "objectStores db projectId = Some table"
      and q: "queryProjectRows_dexie db projectId params = Inr res"
  proof -
    from query_dexie_Inr[OF q] t have r: "retrieveRows table params = Inr (total res, rows res)"
      by auto
    have "matchesIgnoreCase (orEmpty (filterField params)) (trim (orEmpty (filterValue params)))
        = (\<lambda>obj. \<exists>s w. evaluateKeyPath (orEmpty (filterField params)) (JObj obj) = Some (JStr s)
              \<and> toLowerCase s = toLowerCase (trim (orEmpty (filterValue params))) @ w)"
      by (intro ext) (rule matchesIgnoreCase_iff)
    with retrieveRows_total[OF r] show ?thesis by simp
  qed
qed

text \<open>
  Claim C2 fails in the index-backed service for a field whose name is not a plain
  identifier. The file has the headers \<^verbatim>\<open>user.name\<close> and \<^verbatim>\<open>city\<close> and two rows. The import
  stores both rows, with these two fields, and creates an index for each field; the engine
  reads the key path \<^verbatim>\<open>user.name\<close> as the property \<^verbatim>\<open>name\<close> of a property \<^verbatim>\<open>user\<close>, so no
  row has a key in that index. The query that filters \<^verbatim>\<open>user.name\<close> by \<^verbatim>\<open>al\<close> counts no
  row and returns none, though the query without a filter returns the row whose value of
  that field is \<^verbatim>\<open>alice\<close>; the cache-backed service counts that one row for the same
  import and request. For the header \<^verbatim>\<open>first name\<close>, which is no key path, no index is
  created, and the query that filters by it is rejected.
\<close>

theorem total_misses_dotted_field:
  "fst (importCsv_dexie exampleDottedParse ''p3'' exampleDottedCsv exampleDb)
     = Inr \<lparr>totalRows = 2, importedFields = [''user.name'', ''city'']\<rparr>
   \<and> map_option indexNames
        (objectStores (snd (importCsv_dexie exampleDottedParse ''p3'' exampleDottedCsv exampleDb))
           ''p3'')
     = Some [''city'', ''user.name'']
   \<and> map_sum id (\<lambda>res. (total res, rows res))
        (queryProjectRows_dexie
           (snd (importCsv_dexie exampleDottedParse ''p3'' exampleDottedCsv exampleDb))
           ''p3'' exampleDottedFilter)
     = Inr (0, [])
   \<and> map_sum id (\<lambda>res. (total res, rows res))
        (queryProjectRows_dexie
           (snd (importCsv_dexie exampleDottedParse ''p3'' exampleDottedCsv exampleDb))
           ''p3'' exampleParams)
     = Inr (2, [[(''user.name'', ''alice''), (''city'', ''Oslo'')],
                [(''user.name'', ''bob''), (''city'', ''Rome'')]])
   \<and> (\<lambda>res. (total res, rows res))
        (fst (queryProjectRows_cache asciiCollationKey ''p3'' exampleDottedFilter
           (snd (importCsv_cache exampleDottedParse ''p3'' exampleDottedCsv exampleService))))
     = (1, [[(''user.name'', ''alice''), (''city'', ''Oslo'')]])
   \<and> fst (importCsv_dexie exampleSpacedParse ''p4'' exampleSpacedCsv exampleDb)
     = Inr \<lparr>totalRows = 1, importedFields = [''first name'', ''city'']\<rparr>
   \<and> map_option indexNames
        (objectStores (snd (importCsv_dexie exampleSpacedParse ''p4'' exampleSpacedCsv exampleDb))
           ''p4'')
     = Some [''city'']
   \<and> queryProjectRows_dexie
        (snd (importCsv_dexie exampleSpacedParse ''p4'' exampleSpacedCsv exampleDb))
        ''p4'' exampleSpacedFilter
     = Inl (SchemaError ''first name'')
   \<and> (\<lambda>res. (total res, rows res))
        (fst (queryProjectRows_cache asciiCollationKey ''p4'' exampleSpacedFilter
           (snd (importCsv_cache exampleSpacedParse ''p4'' exampleSpacedCsv exampleService))))
     = (1, [[(''first name'', ''alice''), (''city'', ''Oslo'')]])"
  by code_simp

section \<open>Pagination\<close>

text \<open>
  What holds of the pages of the cache-backed service: the rows of page \<open>a\<close> with page
  size \<open>b\<close> are the rows from offset \<open>(max a 1 - 1) * max b 1\<close>, at most \<open>max b 1\<close> of them,
  of the filtered and sorted rows, whose number is the total; so a page holds what is left
  of the sequence past its offset, nothing beyond the last row, and the page after it
  starts where it ends.
\<close>

lemma pages_of_cached_rows:
  "rows (fst (queryProjectRows_cache ck projectId (params\<lparr>page := a, pageSize := b\<rparr>) st))
     = take (nat (max b 1)) (drop (nat ((max a 1 - 1) * max b 1))
         (processedRows ck params (cachedRows (fst (cachedOrLoaded projectId st)))))"
  "total (fst (queryProjectRows_cache ck projectId (params\<lparr>page := a, pageSize := b\<rparr>) st))
     = length (processedRows ck params (cachedRows (fst (cachedOrLoaded projectId st))))"
  "length (rows (fst (queryProjectRows_cache ck projectId (params\<lparr>page := a, pageSize := b\<rparr>) st)))
     = min (nat (max b 1))
         (length (processedRows ck params (cachedRows (fst (cachedOrLoaded projectId st))))
           - nat ((max a 1 - 1) * max b 1))"
  "rows (fst (queryProjectRows_cache ck projectId (params\<lparr>page := a, pageSize := b\<rparr>) st))
     @ rows (fst (queryProjectRows_cache ck projectId
         (params\<lparr>page := max a 1 + 1, pageSize := b\<rparr>) st))
     = take (2 * nat (max b 1)) (drop (nat ((max a 1 - 1) * max b 1))
         (processedRows ck params (cachedRows (fst (cachedOrLoaded projectId st)))))"
proof -
  let ?seq = "processedRows ck params (cachedRows (fst (cachedOrLoaded projectId st)))"
  have next_offset: "nat ((max (max a 1 + 1) 1 - 1) * max b 1)
      = nat ((max a 1 - 1) * max b 1) + nat (max b 1)"
  proof -
    have "(max (max a 1 + 1) 1 - 1) * max b 1 = (max a 1 - 1) * max b 1 + max b 1"
      by (simp add: algebra_simps max_def)
    moreover have "0 \<le> (max a 1 - 1) * max b 1" by simp
    ultimately show ?thesis by (simp add: nat_add_distrib)
  qed
  have r: "rows (fst (queryProjectRows_cache ck projectId (params\<lparr>page := a', pageSize := b\<rparr>) st))
      = take (nat (max b 1)) (drop (nat ((max a' 1 - 1) * max b 1)) ?seq)" for a'
    by (simp add: query_cache_rows)
  show "rows (fst (queryProjectRows_cache ck projectId (params\<lparr>page := a, pageSize := b\<rparr>) st))
      = take (nat (max b 1)) (drop (nat ((max a 1 - 1) * max b 1)) ?seq)"
    by (rule r)
  show "total (fst (queryProjectRows_cache ck projectId (params\<lparr>page := a, pageSize := b\<rparr>) st))
      = length ?seq"
    by (simp add: query_cache_total length_processedRows)
  have two: "take n (drop k ?seq) @ take n (drop (k + n) ?seq) = take (2 * n) (drop k ?seq)" for n k
  proof -
    have "take (n + n) (drop k ?seq) = take n (drop k ?seq) @ take n (drop n (drop k ?seq))"
      by (rule take_add)
    then show ?thesis by (simp add: mult_2 add.commute)
  qed
  show "length (rows (fst (queryProjectRows_cache ck projectId
                (params\<lparr>page := a, pageSize := b\<rparr>) st)))
            = min (nat (max b 1)) (length ?seq - nat ((max a 1 - 1) * max b 1))"
    by (simp only: r length_take length_drop min.commute)
  show "rows (fst (queryProjectRows_cache ck projectId (params\<lparr>page := a, pageSize := b\<rparr>) st))
              @ rows (fst (queryProjectRows_cache ck projectId
                  (params\<lparr>page := max a 1 + 1, pageSize := b\<rparr>) st))
            = take (2 * nat (max b 1)) (drop (nat ((max a 1 - 1) * max b 1)) ?seq)"
    by (simp only: r next_offset two)
qed

text \<open>
  Claim C4 fails in the index-backed service for a sort field whose name is not a plain
  identifier, by the same reading of the field name as a key path. After the import of the
  file with the headers \<^verbatim>\<open>user.name\<close> and \<^verbatim>\<open>city\<close> the project has two rows, which the
  query without a sort returns. The query that sorts by \<^verbatim>\<open>user.name\<close> reads its page from
  the index of that name, which holds no row, and counts the rows of the store: its first
  page is empty with a total of two, and so is every page. The cache-backed service
  returns both rows for the same import and request.
\<close>

theorem page_misses_rows_of_dotted_sort:
  "map_sum id (\<lambda>res. (total res, rows res))
     (queryProjectRows_dexie
        (snd (importCsv_dexie exampleDottedParse ''p3'' exampleDottedCsv exampleDb))
        ''p3'' exampleParams)
     = Inr (2, [[(''user.name'', ''alice''), (''city'', ''Oslo'')],
                [(''user.name'', ''bob''), (''city'', ''Rome'')]])
   \<and> page exampleDottedSort = 1 \<and> pageSize exampleDottedSort = 10
   \<and> map_sum id (\<lambda>res. (total res, rows res))
        (queryProjectRows_dexie
           (snd (importCsv_dexie exampleDottedParse ''p3'' exampleDottedCsv exampleDb))
           ''p3'' exampleDottedSort)
     = Inr (2, [])
   \<and> map_sum id (\<lambda>res. (total res, rows res))
        (queryProjectRows_dexie
           (snd (importCsv_dexie exampleDottedParse ''p3'' exampleDottedCsv exampleDb))
           ''p3'' (exampleDottedSort\<lparr>pageSize := 1\<rparr>))
     = Inr (2, [])
   \<and> (\<lambda>res. (total res, rows res))
        (fst (queryProjectRows_cache asciiCollationKey ''p3'' exampleDottedSort
           (snd (importCsv_cache exampleDottedParse ''p3'' exampleDottedCsv exampleService))))
     = (2, [[(''user.name'', ''alice''), (''city'', ''Oslo'')],
            [(''user.name'', ''bob''), (''city'', ''Rome'')]])"
  by code_simp

section \<open>The fields of a result\<close>



lemma imported_entry_fields:
  assumes "importCsv_cache parser projectId csvText st = (Inr r, st')"
  shows "\<exists>e. projectRowsCache st' projectId = Some e
           \<and> cachedFields e = firstRowKeys (cachedRows e)
           \<and> cachedFields e = importedFields r"
  using assms
  by (auto simp: importCsv_cache_def Let_def
      split: prod.splits option.splits if_splits)




section \<open>The order of the rows\<close>






















section \<open>The displayed query\<close>

text \<open>
  What holds of the displayed query: every single quote of the filter value is doubled
  and nothing else of it changes; the pattern is the escaped value followed by a percent
  sign in the index-backed service and between two percent signs in the cache-backed one;
  and the \<^verbatim>\<open>WHERE\<close> clause stands exactly when the filter field and the filter value as
  given, untrimmed, are not empty.
\<close>

lemma escapeQuotes_quotes:
  "length (filter (\<lambda>c. c = CHR 0x27) (escapeQuotes s)) = 2 * length (filter (\<lambda>c. c = CHR 0x27) s)"
  by (induction s) (auto simp: escapeQuotes_def)

lemma escapeQuotes_rest:
  "filter (\<lambda>c. c \<noteq> CHR 0x27) (escapeQuotes s) = filter (\<lambda>c. c \<noteq> CHR 0x27) s"
  by (induction s) (auto simp: escapeQuotes_def)

lemma displayed_query_shape:
  "buildSqlLikeQueryWith pattern projectId params =
     joinSpace
       ([''SELECT * FROM '' @ dquote @ projectId @ dquote]
        @ (if truthy (filterField params) \<and> truthy (filterValue params)
           then [''WHERE '' @ dquote @ orEmpty (filterField params) @ dquote @ '' LIKE '' @
                   squote @ pattern (escapeQuotes (orEmpty (filterValue params))) @ squote]
           else [])
        @ (if truthy (sortField params)
           then [''ORDER BY '' @ dquote @ orEmpty (sortField params) @ dquote @ '' '' @
                   (if sortDirection params = Some desc then ''DESC'' else ''ASC'')]
           else [])
        @ [''LIMIT '' @ showInt (max (pageSize params) 1) @ '' OFFSET '' @
             showInt ((max (page params) 1 - 1) * max (pageSize params) 1)])"
  by (simp add: buildSqlLikeQueryWith_def Let_def)

text \<open>
  Claim C6 fails on both services at a filter value of white space. The request filters
  the field \<^verbatim>\<open>name\<close> by a single space: the displayed query has a \<^verbatim>\<open>WHERE\<close> clause, with
  the untrimmed space in its pattern, while the execution trims the value, applies no
  filter and counts all four rows.
\<close>

theorem where_clause_without_filter:
  "sql (fst (queryProjectRows_cache asciiCollationKey ''p1'' exampleBlankFilter exampleService))
     = ''SELECT * FROM '' @ dquote @ ''p1'' @ dquote @ '' WHERE '' @ dquote @ ''name'' @ dquote
       @ '' LIKE '' @ squote @ ''% %'' @ squote @ '' LIMIT 10 OFFSET 0''
   \<and> total (fst (queryProjectRows_cache asciiCollationKey ''p1'' exampleBlankFilter exampleService))
     = 4
   \<and> map_sum id sql (queryProjectRows_dexie exampleDb ''p1'' exampleBlankFilter)
     = Inr (''SELECT * FROM '' @ dquote @ ''p1'' @ dquote @ '' WHERE '' @ dquote @ ''name'' @ dquote
       @ '' LIKE '' @ squote @ '' %'' @ squote @ '' LIMIT 10 OFFSET 0'')
   \<and> map_sum id total (queryProjectRows_dexie exampleDb ''p1'' exampleBlankFilter) = Inr 4
   \<and> length (records exampleStore) = 4
   \<and> trim (orEmpty (filterValue exampleBlankFilter)) = []"
  by code_simp

section \<open>The order of the properties of an object\<close>

lemma opo_mset: "mset (ownPropertyOrder es) = mset es"
  by (simp add: ownPropertyOrder_def)




lemma opo_Nil: "ownPropertyOrder es = [] \<longleftrightarrow> es = []"
  using opo_mset[of es] by (metis mset_zero_iff)








text \<open>
  The order said without the rank: the properties whose names are array indices by
  rising number, then the others as they were created.
\<close>

lemma opo_split:
  "ownPropertyOrder es
     = sort_key (\<lambda>e. indexValue (fst e)) (filter (\<lambda>e. isArrayIndex (fst e)) es)
       @ filter (\<lambda>e. \<not> isArrayIndex (fst e)) es"
proof -
  let ?iv = "\<lambda>e :: string \<times> 'a. indexValue (fst e)"
  let ?idx = "\<lambda>e :: string \<times> 'a. isArrayIndex (fst e)"
  let ?A = "sort_key ?iv (filter ?idx es)"
  let ?B = "filter (\<lambda>e. \<not> ?idx e) es"
  have rankA: "propertyRank e = (0, ?iv e)" if "e \<in> set ?A" for e
    using that by (simp add: propertyRank_def)
  have rankB: "propertyRank e = (1, 0)" if "e \<in> set ?B" for e
    using that by (simp add: propertyRank_def)
  have "sort_key propertyRank es = ?A @ ?B"
  proof (rule properties_for_sort_key)
    show "mset (?A @ ?B) = mset es" by simp
    have "sorted (map ?iv ?A)" by simp
    then have "sorted_wrt (\<lambda>a b. ?iv a \<le> ?iv b) ?A" by (simp add: sorted_map)
    then have "sorted_wrt (\<lambda>a b. propertyRank a \<le> propertyRank b) ?A"
      by (rule sorted_wrt_mono_rel[rotated]) (simp add: rankA)
    moreover have "sorted_wrt (\<lambda>a b. propertyRank a \<le> propertyRank b) ?B"
      by (rule sorted_wrt_mono_rel[of _ "\<lambda>a b. True"]) (simp_all add: rankB)
    moreover have "propertyRank a \<le> propertyRank b" if "a \<in> set ?A" "b \<in> set ?B" for a b
      using rankA[OF that(1)] rankB[OF that(2)] by simp
    ultimately show "sorted (map propertyRank (?A @ ?B))"
      by (simp add: sorted_map sorted_wrt_append)
    fix k :: "string \<times> 'a"
    show "filter (\<lambda>x. propertyRank k = propertyRank x) (?A @ ?B)
        = filter (\<lambda>x. propertyRank k = propertyRank x) es"
    proof (cases "?idx k")
      case True
      have a: "filter (\<lambda>x. propertyRank k = propertyRank x) ?A = filter (\<lambda>x. ?iv x = ?iv k) ?A"
        by (rule filter_cong) (auto simp: rankA True propertyRank_def)
      have b: "filter (\<lambda>x. propertyRank k = propertyRank x) ?B = []"
        using True by (auto simp: filter_empty_conv propertyRank_def)
      have "filter (\<lambda>x. ?iv x = ?iv k) ?A = filter (\<lambda>x. ?iv x = ?iv k) (filter ?idx es)"
        by (rule sort_key_stable)
      also have "\<dots> = filter (\<lambda>x. propertyRank k = propertyRank x) es"
        using True by (auto simp: propertyRank_def intro: filter_cong)
      finally show ?thesis using a b by simp
    next
      case False
      have a: "filter (\<lambda>x. propertyRank k = propertyRank x) ?A = []"
        using False by (auto simp: filter_empty_conv propertyRank_def)
      have b: "filter (\<lambda>x. propertyRank k = propertyRank x) ?B = ?B"
        using False by (auto simp: filter_id_conv propertyRank_def)
      have "?B = filter (\<lambda>x. propertyRank k = propertyRank x) es"
        using False by (auto simp: propertyRank_def intro: filter_cong)
      with a b show ?thesis by simp
    qed
  qed
  then show ?thesis by (simp add: ownPropertyOrder_def)
qed

lemma opo_plain: "list_all (\<lambda>e. \<not> isArrayIndex (fst e)) es \<Longrightarrow> ownPropertyOrder es = es"
  using opo_split[of es] by (simp add: list_all_iff filter_empty_conv filter_id_conv)








section \<open>Normalisation of the parsed records\<close>






lemma isObject_transformHeaders [simp]: "isObject (transformHeaders f r) = isObject r"
  by (cases r) (simp_all add: transformHeaders_def)









text \<open>
  On its own \<^verbatim>\<open>normalizeCsvRows\<close> keeps a key as it is given: the headers are trimmed by
  the header function that \<^verbatim>\<open>importCsv\<close> hands to the parser.
\<close>

lemma normalizeCsvRows_keeps_keys:
  "normalizeCsvRows [JObj [('' a '', JStr ''1'')]] = [[('' a '', ''1'')]]
   \<and> normalizeCsvRows (map (transformHeaders trim) [JObj [('' a '', JStr ''1'')]]) = [[(''a'', ''1'')]]"
  by code_simp



section \<open>An import that fails to parse\<close>

text \<open>
  What holds when the parser reports an error. The index-backed service throws the first
  message and leaves the database as it was. The cache-backed service, for a project with
  a name, throws the first message too, writes no row and leaves its cache as it was; a
  project that had a store keeps the whole database as it was.
\<close>

lemma failed_import_dexie:
  assumes "errors (parser csvText) \<noteq> []"
  shows "importCsv_dexie parser projectId csvText db
     = (Inl (Error (firstErrorMessage (errors (parser csvText)))), db)"
  using assms by (simp add: importCsv_dexie_def papaParse_def Let_def)

lemma first_error_message: "firstErrorMessage (Some m # es) = m"
  by simp

lemma ensureProjectStore_ok:
  assumes "projectId \<noteq> []"
  shows "fst (ensureProjectStore projectId db) = None"
    and "objectStores db projectId \<noteq> None \<Longrightarrow> snd (ensureProjectStore projectId db) = db"
    and "objectStores db projectId = None \<Longrightarrow>
           objectStores (snd (ensureProjectStore projectId db)) projectId = Some (emptyStore [])"
  using assms
  by (auto simp: ensureProjectStore_def getDbUpgrade_def Let_def)

lemma failed_import_cache:
  assumes "errors (parser csvText) \<noteq> []" and "projectId \<noteq> []"
  shows "fst (importCsv_cache parser projectId csvText st)
           = Inl (Error (firstErrorMessage (errors (parser csvText))))"
    and "projectRowsCache (snd (importCsv_cache parser projectId csvText st)) = projectRowsCache st"
    and "database (snd (importCsv_cache parser projectId csvText st))
           = snd (ensureProjectStore projectId (database st))"
    and "objectStores (database st) projectId \<noteq> None \<Longrightarrow>
           snd (importCsv_cache parser projectId csvText st) = st"
proof -
  obtain db1 where e: "ensureProjectStore projectId (database st) = (None, db1)"
    using ensureProjectStore_ok(1)[OF assms(2), of "database st"]
    by (cases "ensureProjectStore projectId (database st)") auto
  with assms(1) show "fst (importCsv_cache parser projectId csvText st)
           = Inl (Error (firstErrorMessage (errors (parser csvText))))"
    and "projectRowsCache (snd (importCsv_cache parser projectId csvText st)) = projectRowsCache st"
    and db: "database (snd (importCsv_cache parser projectId csvText st))
           = snd (ensureProjectStore projectId (database st))"
    by (simp_all add: importCsv_cache_def papaParse_def Let_def)
  show "snd (importCsv_cache parser projectId csvText st) = st"
    if "objectStores (database st) projectId \<noteq> None"
  proof -
    from that ensureProjectStore_ok(2)[OF assms(2), of "database st"] e have "db1 = database st"
      by simp
    with e assms(1) show ?thesis by (simp add: importCsv_cache_def papaParse_def Let_def)
  qed
qed

text \<open>
  Claim C8 holds in the index-backed service and fails in the cache-backed one for a
  project that has no store yet. The parser reports an error for the text; both services
  throw its message. The index-backed service leaves the example database as it was. The
  cache-backed service has by then created the store of the project \<^verbatim>\<open>p2\<close>, which did not
  exist, and raised the version of the database.
\<close>

theorem failed_import_creates_store:
  "fst (importCsv_cache exampleFailingParse ''p2'' ''a,b'' exampleService)
     = Inl (Error ''Too many fields: expected 2 fields but parsed 3'')
   \<and> objectStores (database exampleService) ''p2'' = None
   \<and> objectStores (database (snd (importCsv_cache exampleFailingParse ''p2'' ''a,b'' exampleService)))
        ''p2'' = Some (emptyStore [])
   \<and> version (database exampleService) = 2
   \<and> version (database (snd (importCsv_cache exampleFailingParse ''p2'' ''a,b'' exampleService))) = 3
   \<and> importCsv_dexie exampleFailingParse ''p2'' ''a,b'' exampleDb
     = (Inl (Error ''Too many fields: expected 2 fields but parsed 3''), exampleDb)"
proof -
  have "importCsv_dexie exampleFailingParse ''p2'' ''a,b'' exampleDb
     = (Inl (Error ''Too many fields: expected 2 fields but parsed 3''), exampleDb)"
    by (simp add: importCsv_dexie_def papaParse_def exampleFailingParse_def)
  moreover have "fst (importCsv_cache exampleFailingParse ''p2'' ''a,b'' exampleService)
     = Inl (Error ''Too many fields: expected 2 fields but parsed 3'')
   \<and> objectStores (database exampleService) ''p2'' = None
   \<and> objectStores (database (snd (importCsv_cache exampleFailingParse ''p2'' ''a,b'' exampleService)))
        ''p2'' = Some (emptyStore [])
   \<and> version (database exampleService) = 2
   \<and> version (database (snd (importCsv_cache exampleFailingParse ''p2'' ''a,b'' exampleService))) = 3"
    by code_simp
  ultimately show ?thesis by blast
qed

end
